theory Spec2Isabelle
  imports Complex_Main "HOL-Library.Word"
begin

section \<open>Neo-AI service: rate limiting, circuit breaking, caching, metrics and IPC framing\<close>

text \<open>
  Python floats (token counts, clock readings, delays) are modelled by \<^typ>\<open>real\<close>; every
  reading of \<^verbatim>\<open>time.time()\<close> is an explicit argument, so that each operation is a pure
  function of the object's state and of the instant at which it runs.
\<close>

datatype py_error = ZeroDivisionError | TypeError | ValueError | IndexError | StructError
  | UnicodeDecodeError | JSONDecodeError

subsection \<open>rate\_limiter/token\_bucket.py\<close>

record TokenBucket =
  capacity :: int
  refill_rate :: real
  tokens :: real
  last_refill :: real

text \<open>\<^verbatim>\<open>TokenBucket.__init__\<close>: the bucket starts full, stamped with the current time.\<close>

definition TokenBucket_init :: "int \<Rightarrow> real \<Rightarrow> real \<Rightarrow> TokenBucket" where
  "TokenBucket_init cap rate now =
     \<lparr>capacity = cap, refill_rate = rate, tokens = real_of_int cap, last_refill = now\<rparr>"

text \<open>\<^verbatim>\<open>TokenBucket._refill\<close>\<close>

definition refill :: "real \<Rightarrow> TokenBucket \<Rightarrow> TokenBucket" where
  "refill now b =
     (let elapsed = now - last_refill b;
          tokens_to_add = elapsed * refill_rate b
      in b\<lparr>tokens := min (real_of_int (capacity b)) (tokens b + tokens_to_add),
            last_refill := now\<rparr>)"

text \<open>\<^verbatim>\<open>TokenBucket.consume\<close>: the returned pair is the result and the bucket afterwards.\<close>

definition consume :: "real \<Rightarrow> real \<Rightarrow> TokenBucket \<Rightarrow> bool \<times> TokenBucket" where
  "consume n now b =
     (let b1 = refill now b
      in if tokens b1 \<ge> n then (True, b1\<lparr>tokens := tokens b1 - n\<rparr>) else (False, b1))"


text \<open>
  \<^verbatim>\<open>TokenBucket.get_wait_time\<close>: \<open>None\<close> when the tokens are available now; the division
  \<^verbatim>\<open>needed / self.refill_rate\<close> raises when the rate is zero.
\<close>

definition get_wait_time ::
  "real \<Rightarrow> real \<Rightarrow> TokenBucket \<Rightarrow> (py_error + real option) \<times> TokenBucket" where
  "get_wait_time n now b =
     (let b1 = refill now b
      in if tokens b1 \<ge> n then (Inr None, b1)
         else (let needed = n - tokens b1
               in if refill_rate b1 = 0 then (Inl ZeroDivisionError, b1)
                  else (Inr (Some (needed / refill_rate b1)), b1)))"

subsection \<open>rate\_limiter/rate\_limiter.py\<close>

record RateLimitConfig =
  enabled :: bool
  global_requests_per_second :: real
  global_requests_per_minute :: real
  global_burst_size :: int
  client_requests_per_second :: real
  client_requests_per_minute :: real
  client_burst_size :: int
  enable_priority :: bool
  high_priority_multiplier :: real

definition default_RateLimitConfig :: RateLimitConfig where
  "default_RateLimitConfig =
     \<lparr>enabled = True, global_requests_per_second = 10, global_requests_per_minute = 100,
      global_burst_size = 20, client_requests_per_second = 2, client_requests_per_minute = 20,
      client_burst_size = 5, enable_priority = True, high_priority_multiplier = 2\<rparr>"

record client_stat =
  allowed :: int
  rejected :: int

record RateLimiter =
  config :: RateLimitConfig
  global_second_bucket :: TokenBucket
  global_minute_bucket :: TokenBucket
  client_second_buckets :: "string \<rightharpoonup> TokenBucket"
  client_minute_buckets :: "string \<rightharpoonup> TokenBucket"
  total_requests :: int
  rejected_requests :: int
  client_stats :: "string \<rightharpoonup> client_stat"

text \<open>Python's \<^verbatim>\<open>int(x)\<close> on a float truncates towards zero.\<close>

definition py_int :: "real \<Rightarrow> int" where
  "py_int x = (if 0 \<le> x then \<lfloor>x\<rfloor> else \<lceil>x\<rceil>)"

text \<open>\<^verbatim>\<open>RateLimiter.__init__\<close>; \<open>t1\<close> and \<open>t2\<close> are the instants at which the two global
  buckets are created.\<close>

definition RateLimiter_init :: "RateLimitConfig \<Rightarrow> real \<Rightarrow> real \<Rightarrow> RateLimiter" where
  "RateLimiter_init cfg t1 t2 =
     \<lparr>config = cfg,
      global_second_bucket =
        TokenBucket_init (global_burst_size cfg) (global_requests_per_second cfg) t1,
      global_minute_bucket =
        TokenBucket_init (py_int (global_requests_per_minute cfg))
          (global_requests_per_minute cfg / 60) t2,
      client_second_buckets = Map.empty, client_minute_buckets = Map.empty,
      total_requests = 0, rejected_requests = 0, client_stats = Map.empty\<rparr>"

text \<open>
  The places of \<^verbatim>\<open>check_rate_limit\<close> that read the clock. Each is reached at most once in a
  call, so a call's clock is a function from these places to the instant read there.
\<close>

datatype clock_site =
  GS_consume | GS_wait | GM_consume | GM_wait
  | CS_create | CS_consume | CS_wait | CM_create | CM_consume | CM_wait

text \<open>\<^verbatim>\<open>self.client_stats\<close> is a \<^verbatim>\<open>defaultdict\<close> of zeroed counters.\<close>

definition stats_of :: "(string \<rightharpoonup> client_stat) \<Rightarrow> string \<Rightarrow> client_stat" where
  "stats_of m c = (case m c of None \<Rightarrow> \<lparr>allowed = 0, rejected = 0\<rparr> | Some st \<Rightarrow> st)"

text \<open>\<^verbatim>\<open>RateLimiter._record_rejection\<close>\<close>

definition record_rejection :: "string \<Rightarrow> RateLimiter \<Rightarrow> RateLimiter" where
  "record_rejection client_id rl =
     rl\<lparr>rejected_requests := rejected_requests rl + 1,
        client_stats := (client_stats rl)(client_id \<mapsto>
          (stats_of (client_stats rl) client_id)
             \<lparr>rejected := rejected (stats_of (client_stats rl) client_id) + 1\<rparr>)\<rparr>"

text \<open>\<^verbatim>\<open>RateLimiter._get_client_bucket\<close>, one function for each of its two branches; \<open>now\<close> is
  read only when the bucket is created.\<close>

definition get_client_second :: "real \<Rightarrow> string \<Rightarrow> RateLimiter \<Rightarrow> TokenBucket \<times> RateLimiter" where
  "get_client_second now client_id rl =
     (case client_second_buckets rl client_id of
        Some b \<Rightarrow> (b, rl)
      | None \<Rightarrow>
          (let b = TokenBucket_init (client_burst_size (config rl))
                     (client_requests_per_second (config rl)) now
           in (b, rl\<lparr>client_second_buckets := (client_second_buckets rl)(client_id \<mapsto> b)\<rparr>)))"

definition get_client_minute :: "real \<Rightarrow> string \<Rightarrow> RateLimiter \<Rightarrow> TokenBucket \<times> RateLimiter" where
  "get_client_minute now client_id rl =
     (case client_minute_buckets rl client_id of
        Some b \<Rightarrow> (b, rl)
      | None \<Rightarrow>
          (let b = TokenBucket_init (py_int (client_requests_per_minute (config rl)))
                     (client_requests_per_minute (config rl) / 60) now
           in (b, rl\<lparr>client_minute_buckets := (client_minute_buckets rl)(client_id \<mapsto> b)\<rparr>)))"

text \<open>The priority adjustment at the head of \<^verbatim>\<open>check_rate_limit\<close>.\<close>

definition effective_tokens :: "RateLimitConfig \<Rightarrow> string \<Rightarrow> int \<Rightarrow> py_error + real" where
  "effective_tokens cfg priority req_tokens =
     (if enable_priority cfg \<and> priority = ''high''
      then (if high_priority_multiplier cfg = 0 then Inl ZeroDivisionError
            else Inr (real_of_int req_tokens / high_priority_multiplier cfg))
      else Inr (real_of_int req_tokens))"

text \<open>
  \<^verbatim>\<open>RateLimiter.check_rate_limit\<close>. The result is what the call returns or raises, with the
  limiter as the call leaves it; \<open>req_tokens\<close> is the source's parameter \<^verbatim>\<open>tokens\<close>. The model-specific branch of the source assigns a local
  and does nothing else, so \<open>model\<close> has no effect.
\<close>

definition check_rate_limit ::
  "(clock_site \<Rightarrow> real) \<Rightarrow> string \<Rightarrow> string option \<Rightarrow> string \<Rightarrow> int \<Rightarrow> RateLimiter
     \<Rightarrow> (py_error + bool \<times> real option) \<times> RateLimiter" where
  "check_rate_limit clk client_id model priority req_tokens rl0 =
     (if \<not> enabled (config rl0) then (Inr (True, None), rl0)
      else
       let rl1 = rl0\<lparr>total_requests := total_requests rl0 + 1\<rparr> in
       case effective_tokens (config rl1) priority req_tokens of
         Inl e \<Rightarrow> (Inl e, rl1)
       | Inr eff \<Rightarrow>
          (let (ok_gs, gs) = consume eff (clk GS_consume) (global_second_bucket rl1);
               rl2 = rl1\<lparr>global_second_bucket := gs\<rparr>
           in if \<not> ok_gs then
                (let (w, gs') = get_wait_time eff (clk GS_wait) (global_second_bucket rl2);
                     rl3 = rl2\<lparr>global_second_bucket := gs'\<rparr>
                 in case w of
                      Inl e \<Rightarrow> (Inl e, rl3)
                    | Inr wait_time \<Rightarrow> (Inr (False, wait_time), record_rejection client_id rl3))
              else
           let (ok_gm, gm) = consume eff (clk GM_consume) (global_minute_bucket rl2);
               rl4 = rl2\<lparr>global_minute_bucket := gm\<rparr>
           in if \<not> ok_gm then
                (let (w, gm') = get_wait_time eff (clk GM_wait) (global_minute_bucket rl4);
                     rl5 = rl4\<lparr>global_minute_bucket := gm'\<rparr>
                 in case w of
                      Inl e \<Rightarrow> (Inl e, rl5)
                    | Inr wait_time \<Rightarrow> (Inr (False, wait_time), record_rejection client_id rl5))
              else
           let (client_second, rl6) = get_client_second (clk CS_create) client_id rl4;
               (ok_cs, cs) = consume eff (clk CS_consume) client_second;
               rl7 = rl6\<lparr>client_second_buckets := (client_second_buckets rl6)(client_id \<mapsto> cs)\<rparr>
           in if \<not> ok_cs then
                (let (w, cs') = get_wait_time eff (clk CS_wait) cs;
                     rl8 = rl7\<lparr>client_second_buckets :=
                                  (client_second_buckets rl7)(client_id \<mapsto> cs')\<rparr>
                 in case w of
                      Inl e \<Rightarrow> (Inl e, rl8)
                    | Inr wait_time \<Rightarrow> (Inr (False, wait_time), record_rejection client_id rl8))
              else
           let (client_minute, rl9) = get_client_minute (clk CM_create) client_id rl7;
               (ok_cm, cm) = consume eff (clk CM_consume) client_minute;
               rl10 = rl9\<lparr>client_minute_buckets := (client_minute_buckets rl9)(client_id \<mapsto> cm)\<rparr>
           in if \<not> ok_cm then
                (let (w, cm') = get_wait_time eff (clk CM_wait) cm;
                     rl11 = rl10\<lparr>client_minute_buckets :=
                                    (client_minute_buckets rl10)(client_id \<mapsto> cm')\<rparr>
                 in case w of
                      Inl e \<Rightarrow> (Inl e, rl11)
                    | Inr wait_time \<Rightarrow> (Inr (False, wait_time), record_rejection client_id rl11))
              else
                (Inr (True, None),
                 rl10\<lparr>client_stats := (client_stats rl10)(client_id \<mapsto>
                    (stats_of (client_stats rl10) client_id)
                       \<lparr>allowed := allowed (stats_of (client_stats rl10) client_id) + 1\<rparr>)\<rparr>)))"

subsection \<open>errors/exceptions.py and errors/error\_handler.py\<close>

text \<open>An exception is its class, its message and its \<^verbatim>\<open>error_code\<close>. \<open>PyTypeError\<close> stands
  for the interpreter's own \<^verbatim>\<open>TypeError\<close>, \<open>OtherException\<close> for any class outside the
  service's taxonomy.\<close>

datatype exn_class = AIServiceError | ModelNotFoundError | RateLimitError | AdapterError
  | ValidationError | PyTypeError | OtherException

datatype exn = Exn (exn_class: exn_class) (exn_message: string) (exn_code: "string option")

fun class_name :: "exn_class \<Rightarrow> string" where
  "class_name AIServiceError = ''AIServiceError''"
| "class_name ModelNotFoundError = ''ModelNotFoundError''"
| "class_name RateLimitError = ''RateLimitError''"
| "class_name AdapterError = ''AdapterError''"
| "class_name ValidationError = ''ValidationError''"
| "class_name PyTypeError = ''TypeError''"
| "class_name OtherException = ''Exception''"

record ErrorConfig =
  enable_retry :: bool
  max_retries :: int
  retry_delay :: real
  retry_backoff :: real
  enable_circuit_breaker :: bool
  cfg_failure_threshold :: int
  cfg_recovery_timeout :: int

definition default_ErrorConfig :: ErrorConfig where
  "default_ErrorConfig =
     \<lparr>enable_retry = True, max_retries = 3, retry_delay = 1, retry_backoff = 2,
      enable_circuit_breaker = True, cfg_failure_threshold = 5, cfg_recovery_timeout = 60\<rparr>"

datatype breaker_state = Closed | Open | HalfOpen

record CircuitBreaker =
  failure_threshold :: int
  recovery_timeout :: int
  failure_count :: int
  last_failure_time :: "real option"
  state :: breaker_state

text \<open>\<^verbatim>\<open>CircuitBreaker.__init__\<close>\<close>

definition CircuitBreaker_init :: "int \<Rightarrow> int \<Rightarrow> CircuitBreaker" where
  "CircuitBreaker_init threshold timeout =
     \<lparr>failure_threshold = threshold, recovery_timeout = timeout, failure_count = 0,
      last_failure_time = None, state = Closed\<rparr>"

text \<open>\<^verbatim>\<open>CircuitBreaker.record_success\<close>\<close>

definition record_success :: "CircuitBreaker \<Rightarrow> CircuitBreaker" where
  "record_success cb = cb\<lparr>failure_count := 0, state := Closed\<rparr>"

text \<open>\<^verbatim>\<open>CircuitBreaker.record_failure\<close>, at the instant \<open>now\<close>.\<close>

definition record_failure :: "real \<Rightarrow> CircuitBreaker \<Rightarrow> CircuitBreaker" where
  "record_failure now cb =
     (let cb1 = cb\<lparr>failure_count := failure_count cb + 1, last_failure_time := Some now\<rparr>
      in if failure_count cb1 \<ge> failure_threshold cb1 then cb1\<lparr>state := Open\<rparr> else cb1)"

text \<open>\<^verbatim>\<open>CircuitBreaker.can_attempt\<close>, at the instant \<open>now\<close>. Subtracting \<^verbatim>\<open>None\<close> from the clock
  raises \<^verbatim>\<open>TypeError\<close>.\<close>

definition can_attempt :: "real \<Rightarrow> CircuitBreaker \<Rightarrow> (py_error + bool) \<times> CircuitBreaker" where
  "can_attempt now cb =
     (if state cb = Closed then (Inr True, cb)
      else if state cb = Open then
        (case last_failure_time cb of
           None \<Rightarrow> (Inl TypeError, cb)
         | Some t \<Rightarrow>
             if now - t \<ge> real_of_int (recovery_timeout cb)
             then (Inr True, cb\<lparr>state := HalfOpen\<rparr>)
             else (Inr False, cb))
      else (Inr True, cb))"

record ErrorHandler =
  eh_config :: ErrorConfig
  circuit_breakers :: "string \<rightharpoonup> CircuitBreaker"
  total_errors :: int
  retries :: int
  fallbacks :: int
  circuit_breaker_trips :: int
  error_types :: "string \<rightharpoonup> int"

text \<open>\<^verbatim>\<open>ErrorHandler.__init__\<close>\<close>

definition ErrorHandler_init :: "ErrorConfig \<Rightarrow> ErrorHandler" where
  "ErrorHandler_init cfg =
     \<lparr>eh_config = cfg, circuit_breakers = Map.empty, total_errors = 0, retries = 0,
      fallbacks = 0, circuit_breaker_trips = 0, error_types = Map.empty\<rparr>"

text \<open>\<^verbatim>\<open>ErrorHandler._record_error\<close>\<close>

definition record_error :: "exn \<Rightarrow> ErrorHandler \<Rightarrow> ErrorHandler" where
  "record_error e h =
     h\<lparr>total_errors := total_errors h + 1,
       error_types := (error_types h)(class_name (exn_class e) \<mapsto>
          (case error_types h (class_name (exn_class e)) of None \<Rightarrow> 0 | Some c \<Rightarrow> c) + 1)\<rparr>"

text \<open>\<^verbatim>\<open>ErrorHandler._get_circuit_breaker\<close>\<close>

definition get_circuit_breaker :: "string \<Rightarrow> ErrorHandler \<Rightarrow> CircuitBreaker \<times> ErrorHandler" where
  "get_circuit_breaker service_name h =
     (case circuit_breakers h service_name of
        Some cb \<Rightarrow> (cb, h)
      | None \<Rightarrow>
          (let cb = CircuitBreaker_init (cfg_failure_threshold (eh_config h))
                      (cfg_recovery_timeout (eh_config h))
           in (cb, h\<lparr>circuit_breakers := (circuit_breakers h)(service_name \<mapsto> cb)\<rparr>)))"

text \<open>
  The world outside the handler: the clock that \<^verbatim>\<open>time.time()\<close> reads and the delays
  handed to \<^verbatim>\<open>asyncio.sleep\<close>, in order. A sleep moves the clock on by its delay (a delay
  that is not positive returns at once).
\<close>

record world =
  clock :: real
  slept :: "real list"

definition sleep :: "real \<Rightarrow> world \<Rightarrow> world" where
  "sleep delay w = w\<lparr>clock := clock w + max 0 delay, slept := slept w @ [delay]\<rparr>"

text \<open>The guard \<^verbatim>\<open>service_name and self.config.enable_circuit_breaker\<close>: \<^verbatim>\<open>None\<close> and the
  empty string are false.\<close>

definition breaker_on :: "string option \<Rightarrow> ErrorHandler \<Rightarrow> bool" where
  "breaker_on service_name h \<longleftrightarrow>
     service_name \<noteq> None \<and> service_name \<noteq> Some [] \<and> enable_circuit_breaker (eh_config h)"

definition circuit_open_error :: "string \<Rightarrow> exn" where
  "circuit_open_error service_name =
     Exn AIServiceError (''Circuit breaker open for '' @ service_name)
       (Some ''CIRCUIT_BREAKER_OPEN'')"

definition py_type_error :: exn where
  "py_type_error = Exn PyTypeError [] None"

text \<open>
  The wrapped coroutine \<open>f\<close> is given the number of the attempt and the instant at which
  it is awaited; it answers with its result or the exception it raises, and with the
  instant at which it comes back.

  \<open>try_block\<close> is the body of the \<^verbatim>\<open>try\<close> in the wrapper of \<^verbatim>\<open>ErrorHandler.with_retry\<close>: the
  breaker check, the call, the recording of the success.
\<close>

definition try_block ::
  "(nat \<Rightarrow> real \<Rightarrow> (exn + 'a) \<times> real) \<Rightarrow> string option \<Rightarrow> nat \<Rightarrow> ErrorHandler \<times> world
     \<Rightarrow> (exn + 'a) \<times> ErrorHandler \<times> world" where
  "try_block f service_name attempt hw =
     (let (h, w) = hw in
      if breaker_on service_name h then
        (let s = the service_name;
             (breaker, h1) = get_circuit_breaker s h;
             (ok, breaker1) = can_attempt (clock w) breaker;
             h2 = h1\<lparr>circuit_breakers := (circuit_breakers h1)(s \<mapsto> breaker1)\<rparr>
         in case ok of
              Inl err \<Rightarrow> (Inl py_type_error, h2, w)
            | Inr False \<Rightarrow> (Inl (circuit_open_error s), h2, w)
            | Inr True \<Rightarrow>
                (let (result, t) = f attempt (clock w); w1 = w\<lparr>clock := t\<rparr>
                 in case result of
                      Inl e \<Rightarrow> (Inl e, h2, w1)
                    | Inr v \<Rightarrow>
                        (Inr v,
                         h2\<lparr>circuit_breakers :=
                              (circuit_breakers h2)(s \<mapsto> record_success breaker1)\<rparr>, w1)))
      else
        (let (result, t) = f attempt (clock w) in (result, h, w\<lparr>clock := t\<rparr>)))"

text \<open>
  \<open>except_block\<close> is the \<^verbatim>\<open>except Exception as e\<close> handler up to the decision: it counts
  the error and records a failure on the breaker. \<open>should_retry\<close> is that decision:
  validation and rate-limit errors are re-raised, any other error is retried while
  attempts remain and retrying is enabled.
\<close>

definition except_block :: "exn \<Rightarrow> string option \<Rightarrow> ErrorHandler \<times> world \<Rightarrow> ErrorHandler \<times> world" where
  "except_block e service_name hw =
     (let (h, w) = hw; h1 = record_error e h in
      if breaker_on service_name h1 then
        (let s = the service_name;
             (breaker, h2) = get_circuit_breaker s h1
         in (h2\<lparr>circuit_breakers :=
                  (circuit_breakers h2)(s \<mapsto> record_failure (clock w) breaker)\<rparr>, w))
      else (h1, w))"

definition should_retry :: "exn \<Rightarrow> nat \<Rightarrow> ErrorConfig \<Rightarrow> bool" where
  "should_retry e attempt cfg \<longleftrightarrow>
     \<not> (exn_class e = ValidationError \<or> exn_class e = RateLimitError)
     \<and> int attempt < max_retries cfg \<and> enable_retry cfg"

text \<open>
  The loop \<^verbatim>\<open>for attempt in range(self.config.max_retries + 1)\<close>: \<open>k\<close> iterations remain,
  \<open>attempt\<close> is the loop variable, \<open>last_error\<close> the last exception caught. Falling out of
  the loop executes \<^verbatim>\<open>raise last_error\<close>, a \<^verbatim>\<open>TypeError\<close> when nothing was caught.
\<close>

fun with_retry_loop ::
  "nat \<Rightarrow> nat \<Rightarrow> (nat \<Rightarrow> real \<Rightarrow> (exn + 'a) \<times> real) \<Rightarrow> string option \<Rightarrow> exn option
     \<Rightarrow> ErrorHandler \<times> world \<Rightarrow> (exn + 'a) \<times> ErrorHandler \<times> world" where
  "with_retry_loop 0 attempt f service_name last_error hw =
     (case last_error of
        None \<Rightarrow> (Inl py_type_error, hw)
      | Some e \<Rightarrow> (Inl e, hw))"
| "with_retry_loop (Suc k) attempt f service_name last_error hw =
     (case try_block f service_name attempt hw of
        (Inr result, hw1) \<Rightarrow> (Inr result, hw1)
      | (Inl e, hw1) \<Rightarrow>
          (let (h2, w2) = except_block e service_name hw1 in
           if should_retry e attempt (eh_config h2) then
             (let delay = retry_delay (eh_config h2) * retry_backoff (eh_config h2) ^ attempt;
                  h3 = h2\<lparr>retries := retries h2 + 1\<rparr>;
                  w3 = sleep delay w2
              in with_retry_loop k (Suc attempt) f service_name (Some e) (h3, w3))
           else (Inl e, h2, w2)))"

text \<open>The wrapper that \<^verbatim>\<open>ErrorHandler.with_retry\<close> returns, applied to the handler and the
  world in which it is awaited.\<close>

definition with_retry ::
  "(nat \<Rightarrow> real \<Rightarrow> (exn + 'a) \<times> real) \<Rightarrow> string option \<Rightarrow> ErrorHandler \<times> world
     \<Rightarrow> (exn + 'a) \<times> ErrorHandler \<times> world" where
  "with_retry f service_name hw =
     with_retry_loop (nat (max_retries (eh_config (fst hw)) + 1)) 0 f service_name None hw"

text \<open>Sequences of events on one breaker, for the states a breaker can reach.\<close>

datatype breaker_event = Success | Failure real | Attempt real

fun breaker_step :: "breaker_event \<Rightarrow> CircuitBreaker \<Rightarrow> CircuitBreaker" where
  "breaker_step Success cb = record_success cb"
| "breaker_step (Failure now) cb = record_failure now cb"
| "breaker_step (Attempt now) cb = snd (can_attempt now cb)"

fun breaker_run :: "breaker_event list \<Rightarrow> CircuitBreaker \<Rightarrow> CircuitBreaker" where
  "breaker_run [] cb = cb"
| "breaker_run (ev # evs) cb = breaker_run evs (breaker_step ev cb)"

text \<open>What holds of every breaker that is not closed: its count has reached the threshold
  and the instant of its last failure is known.\<close>

definition breaker_inv :: "CircuitBreaker \<Rightarrow> bool" where
  "breaker_inv cb \<longleftrightarrow>
     (state cb \<noteq> Closed \<longrightarrow>
        failure_threshold cb \<le> failure_count cb \<and> last_failure_time cb \<noteq> None)"

text \<open>A breaker with the default limits after five failures, the last at instant 0, and a
  handler holding it for the service \<open>x\<close>.\<close>

definition tripped_breaker :: CircuitBreaker where
  "tripped_breaker =
     breaker_run [Failure 0, Failure 0, Failure 0, Failure 0, Failure 0]
       (CircuitBreaker_init 5 60)"

definition tripped_handler :: ErrorHandler where
  "tripped_handler =
     (ErrorHandler_init default_ErrorConfig)\<lparr>circuit_breakers := [''x'' \<mapsto> tripped_breaker]\<rparr>"

definition world_at :: "real \<Rightarrow> world" where
  "world_at t = \<lparr>clock = t, slept = []\<rparr>"

subsection \<open>monitoring/metrics\_collector.py\<close>

datatype MetricType = COUNTER | GAUGE | HISTOGRAM | TIMER

text \<open>A tag set is a dictionary from strings to strings, kept as its list of items.\<close>

type_synonym tags = "(string \<times> string) list"

record Metric =
  metric_name :: string
  metric_type :: MetricType
  metric_value :: real
  timestamp :: real
  metric_tags :: tags

record MetricSummary =
  s_name :: string
  s_count :: nat
  s_sum :: real
  s_min :: real
  s_max :: real
  s_mean :: real
  s_median :: real
  s_p95 :: real
  s_p99 :: real
  s_tags :: tags

record MetricsCollector =
  window_size :: int
  max_samples :: nat
  metrics :: "string \<rightharpoonup> Metric list"

text \<open>\<^verbatim>\<open>MetricsCollector.__init__\<close>, with its defaults.\<close>

definition MetricsCollector_init :: "int \<Rightarrow> nat \<Rightarrow> MetricsCollector" where
  "MetricsCollector_init window maxs =
     \<lparr>window_size = window, max_samples = maxs, metrics = Map.empty\<rparr>"

definition default_MetricsCollector :: MetricsCollector where
  "default_MetricsCollector = MetricsCollector_init 300 1000"

text \<open>Appending to a \<^verbatim>\<open>deque(maxlen=n)\<close>: a full deque drops items from its left end.\<close>

definition deque_append :: "nat \<Rightarrow> 'a list \<Rightarrow> 'a \<Rightarrow> 'a list" where
  "deque_append maxlen q x = drop (length (q @ [x]) - maxlen) (q @ [x])"

text \<open>\<^verbatim>\<open>self.metrics.get(name, [])\<close>\<close>

definition metrics_get :: "MetricsCollector \<Rightarrow> string \<Rightarrow> Metric list" where
  "metrics_get c name = (case metrics c name of None \<Rightarrow> [] | Some q \<Rightarrow> q)"

text \<open>\<^verbatim>\<open>MetricsCollector.record_timer\<close>, at the instant \<open>now\<close> that stamps the sample.\<close>

definition record_timer ::
  "string \<Rightarrow> real \<Rightarrow> tags option \<Rightarrow> real \<Rightarrow> MetricsCollector \<Rightarrow> MetricsCollector" where
  "record_timer name duration tgs now c =
     (let metric = \<lparr>metric_name = name, metric_type = TIMER, metric_value = duration,
                     timestamp = now,
                     metric_tags = (case tgs of None \<Rightarrow> [] | Some t \<Rightarrow> t)\<rparr>
      in c\<lparr>metrics := (metrics c)(name \<mapsto>
               deque_append (max_samples c) (metrics_get c name) metric)\<rparr>)"

text \<open>\<^verbatim>\<open>MetricsCollector._tags_match\<close>\<close>

definition tags_match :: "tags \<Rightarrow> tags option \<Rightarrow> bool" where
  "tags_match mtags filter_tags =
     (case filter_tags of
        None \<Rightarrow> True
      | Some ft \<Rightarrow> if ft = [] then True
                   else list_all (\<lambda>(k, v). map_of mtags k = Some v) ft)"

text \<open>Python's \<^verbatim>\<open>xs[i]\<close>: a negative index counts from the end, an index out of range
  raises.\<close>

definition py_index :: "'a list \<Rightarrow> int \<Rightarrow> py_error + 'a" where
  "py_index xs i =
     (if 0 \<le> i \<and> i < int (length xs) then Inr (xs ! nat i)
      else if i < 0 \<and> - int (length xs) \<le> i then Inr (xs ! nat (int (length xs) + i))
      else Inl IndexError)"

text \<open>\<^verbatim>\<open>MetricsCollector._percentile\<close>\<close>

definition percentile :: "real list \<Rightarrow> real \<Rightarrow> py_error + real" where
  "percentile sorted_values p =
     (if sorted_values = [] then Inr 0
      else
        (let index = py_int (real (length sorted_values) * p);
             index1 = (if index \<ge> int (length sorted_values)
                       then int (length sorted_values) - 1 else index)
         in py_index sorted_values index1))"

text \<open>\<^verbatim>\<open>statistics.median\<close> on a sorted, non-empty list.\<close>

definition median :: "real list \<Rightarrow> real" where
  "median vs =
     (let n = length vs
      in if n mod 2 = 1 then vs ! (n div 2)
         else (vs ! (n div 2 - 1) + vs ! (n div 2)) / 2)"

text \<open>\<^verbatim>\<open>MetricsCollector.get_metric_summary\<close>, at the instant \<open>now\<close>.\<close>

definition get_metric_summary ::
  "string \<Rightarrow> tags option \<Rightarrow> real \<Rightarrow> MetricsCollector \<Rightarrow> py_error + MetricSummary option" where
  "get_metric_summary name tgs now c =
     (let window_start = now - real_of_int (window_size c);
          recent_metrics =
            filter (\<lambda>m. timestamp m \<ge> window_start \<and> tags_match (metric_tags m) tgs)
              (metrics_get c name)
      in if recent_metrics = [] then Inr None
         else
           (let vs = sort (map metric_value recent_metrics)
            in case percentile vs (95 / 100) of
                 Inl e \<Rightarrow> Inl e
               | Inr p95 \<Rightarrow>
                  (case percentile vs (99 / 100) of
                     Inl e \<Rightarrow> Inl e
                   | Inr p99 \<Rightarrow>
                       Inr (Some \<lparr>s_name = name, s_count = length vs, s_sum = sum_list vs,
                                  s_min = Min (set vs), s_max = Max (set vs),
                                  s_mean = sum_list vs / real (length vs),
                                  s_median = median vs, s_p95 = p95, s_p99 = p99,
                                  s_tags = (case tgs of None \<Rightarrow> [] | Some t \<Rightarrow> t)\<rparr>))))"

text \<open>The samples of a series that a summary at \<open>now\<close> takes into account.\<close>

definition recent_samples :: "string \<Rightarrow> tags option \<Rightarrow> real \<Rightarrow> MetricsCollector \<Rightarrow> Metric list" where
  "recent_samples name tgs now c =
     filter (\<lambda>m. now - real_of_int (window_size c) \<le> timestamp m
                 \<and> tags_match (metric_tags m) tgs) (metrics_get c name)"

text \<open>Recording a list of durations as timer samples of one series, all at one instant.\<close>

fun record_timers :: "string \<Rightarrow> real list \<Rightarrow> real \<Rightarrow> MetricsCollector \<Rightarrow> MetricsCollector" where
  "record_timers name [] now c = c"
| "record_timers name (d # ds) now c = record_timers name ds now (record_timer name d None now c)"

subsection \<open>cache/cache\_manager.py\<close>

record CacheConfig =
  cache_enabled :: bool
  max_size :: int
  ttl_seconds :: int
  storage_type :: string
  storage_path :: string

definition default_CacheConfig :: CacheConfig where
  "default_CacheConfig =
     \<lparr>cache_enabled = True, max_size = 1000, ttl_seconds = 3600, storage_type = ''memory'',
      storage_path = ''cache''\<rparr>"

record 'v CacheEntry =
  entry_key :: string
  entry_value :: 'v
  created_at :: real
  accessed_at :: real
  access_count :: int
  ttl :: int

text \<open>\<^verbatim>\<open>CacheEntry.is_expired\<close> and \<^verbatim>\<open>CacheEntry.touch\<close>, at the instant \<open>now\<close>.\<close>

definition is_expired :: "real \<Rightarrow> 'v CacheEntry \<Rightarrow> bool" where
  "is_expired now e \<longleftrightarrow> now - created_at e > real_of_int (ttl e)"

definition touch :: "real \<Rightarrow> 'v CacheEntry \<Rightarrow> 'v CacheEntry" where
  "touch now e = e\<lparr>accessed_at := now, access_count := access_count e + 1\<rparr>"

text \<open>
  An \<^verbatim>\<open>OrderedDict\<close> is the list of its items in order, first item first, with distinct
  keys: assignment to a present key replaces the value where it stands, assignment to a
  new key appends; \<^verbatim>\<open>move_to_end\<close> moves an item to the last place; \<^verbatim>\<open>popitem(last=False)\<close>
  takes the first item.
\<close>

type_synonym ('k, 'v) ordered_dict = "('k \<times> 'v) list"

definition od_get :: "('k, 'v) ordered_dict \<Rightarrow> 'k \<Rightarrow> 'v option" where
  "od_get d k = map_of d k"

definition od_set :: "'k \<Rightarrow> 'v \<Rightarrow> ('k, 'v) ordered_dict \<Rightarrow> ('k, 'v) ordered_dict" where
  "od_set k v d =
     (if k \<in> fst ` set d then map (\<lambda>(k', v'). if k' = k then (k', v) else (k', v')) d
      else d @ [(k, v)])"

definition od_delete :: "'k \<Rightarrow> ('k, 'v) ordered_dict \<Rightarrow> ('k, 'v) ordered_dict" where
  "od_delete k d = filter (\<lambda>(k', v'). k' \<noteq> k) d"

definition od_move_to_end :: "'k \<Rightarrow> ('k, 'v) ordered_dict \<Rightarrow> ('k, 'v) ordered_dict" where
  "od_move_to_end k d =
     (case map_of d k of None \<Rightarrow> d | Some v \<Rightarrow> od_delete k d @ [(k, v)])"

text \<open>The manager; \<open>files\<close> is the content of the storage directory, one stored entry for
  each key that has a file.\<close>

record 'v CacheManager =
  cache_config :: CacheConfig
  cache :: "(string, 'v CacheEntry) ordered_dict"
  hits :: int
  misses :: int
  evictions :: int
  files :: "string \<rightharpoonup> 'v CacheEntry"

text \<open>\<^verbatim>\<open>CacheManager.__init__\<close>, on a storage directory holding \<open>fs\<close>.\<close>

definition CacheManager_init :: "CacheConfig \<Rightarrow> (string \<rightharpoonup> 'v CacheEntry) \<Rightarrow> 'v CacheManager" where
  "CacheManager_init cfg fs =
     \<lparr>cache_config = cfg, cache = [], hits = 0, misses = 0, evictions = 0, files = fs\<rparr>"

definition file_backed :: "'v CacheManager \<Rightarrow> bool" where
  "file_backed m \<longleftrightarrow> storage_type (cache_config m) = ''file''"

text \<open>\<^verbatim>\<open>CacheManager._load_from_file\<close>: an entry that has a file and has not expired.\<close>

definition load_from_file :: "string \<Rightarrow> real \<Rightarrow> 'v CacheManager \<Rightarrow> 'v CacheEntry option" where
  "load_from_file k now m =
     (case files m k of
        None \<Rightarrow> None
      | Some e \<Rightarrow> if \<not> is_expired now e then Some e else None)"

text \<open>\<^verbatim>\<open>CacheManager.delete\<close>\<close>

definition cache_delete :: "string \<Rightarrow> 'v CacheManager \<Rightarrow> 'v CacheManager" where
  "cache_delete k m =
     (let m1 = m\<lparr>cache := od_delete k (cache m)\<rparr>
      in if file_backed m1 then m1\<lparr>files := (files m1)(k := None)\<rparr> else m1)"

text \<open>\<^verbatim>\<open>CacheManager._evict_lru\<close>\<close>

definition evict_lru :: "'v CacheManager \<Rightarrow> 'v CacheManager" where
  "evict_lru m =
     (case cache m of
        [] \<Rightarrow> m
      | (k, entry) # rest \<Rightarrow>
          (let m1 = m\<lparr>cache := rest, evictions := evictions m + 1\<rparr>
           in if file_backed m1 then m1\<lparr>files := (files m1)(k := None)\<rparr> else m1))"

text \<open>The entry that \<^verbatim>\<open>CacheManager.set\<close> builds: \<^verbatim>\<open>ttl or self.config.ttl_seconds\<close> takes the
  configured default for \<^verbatim>\<open>None\<close> and for \<open>0\<close>.\<close>

definition new_entry :: "string \<Rightarrow> 'v \<Rightarrow> int option \<Rightarrow> real \<Rightarrow> CacheConfig \<Rightarrow> 'v CacheEntry" where
  "new_entry k v ttl_arg now cfg =
     \<lparr>entry_key = k, entry_value = v, created_at = now, accessed_at = now, access_count = 0,
      ttl = (case ttl_arg of None \<Rightarrow> ttl_seconds cfg
             | Some t \<Rightarrow> if t = 0 then ttl_seconds cfg else t)\<rparr>"

text \<open>\<^verbatim>\<open>CacheManager.set\<close>, at the instant \<open>now\<close>.\<close>

definition cache_set :: "string \<Rightarrow> 'v \<Rightarrow> int option \<Rightarrow> real \<Rightarrow> 'v CacheManager \<Rightarrow> 'v CacheManager" where
  "cache_set k v ttl_arg now m =
     (if \<not> cache_enabled (cache_config m) then m
      else
        (let m1 = (if int (length (cache m)) \<ge> max_size (cache_config m)
                   then evict_lru m else m);
             entry = new_entry k v ttl_arg now (cache_config m1);
             m2 = m1\<lparr>cache := od_set k entry (cache m1)\<rparr>
         in if file_backed m2 then m2\<lparr>files := (files m2)(k \<mapsto> entry)\<rparr> else m2))"

text \<open>\<^verbatim>\<open>CacheManager.get\<close>, at the instant \<open>now\<close>: the value returned and the manager
  afterwards.\<close>

definition cache_get :: "string \<Rightarrow> real \<Rightarrow> 'v CacheManager \<Rightarrow> 'v option \<times> 'v CacheManager" where
  "cache_get k now m =
     (if \<not> cache_enabled (cache_config m) then (None, m)
      else
        (let found =
               (case od_get (cache m) k of
                  Some entry \<Rightarrow> Some (entry, m)
                | None \<Rightarrow>
                    (let m1 = m\<lparr>misses := misses m + 1\<rparr>
                     in if file_backed m1 then
                          (case load_from_file k now m1 of
                             Some entry \<Rightarrow> Some (entry, m1\<lparr>cache := od_set k entry (cache m1)\<rparr>)
                           | None \<Rightarrow> None)
                        else None))
         in case found of
              None \<Rightarrow> (None, m\<lparr>misses := misses m + 1\<rparr>)
            | Some (entry, m2) \<Rightarrow>
                if is_expired now entry then
                  (let m3 = cache_delete k m2 in (None, m3\<lparr>misses := misses m3 + 1\<rparr>))
                else
                  (let entry1 = touch now entry;
                       m3 = m2\<lparr>cache := od_set k entry1 (cache m2), hits := hits m2 + 1\<rparr>
                   in (Some (entry_value entry1),
                       m3\<lparr>cache := od_move_to_end k (cache m3)\<rparr>))))"


text \<open>Managers for the examples: a memory cache of the given size, and the cache of size 2
  after \<open>A\<close>, \<open>B\<close> and \<open>C\<close> have been set at instants 1, 2 and 3.\<close>

definition memory_cache :: "int \<Rightarrow> nat CacheManager" where
  "memory_cache n = CacheManager_init (default_CacheConfig\<lparr>max_size := n\<rparr>) Map.empty"

definition cache_ABC :: "nat CacheManager" where
  "cache_ABC =
     cache_set ''C'' 30 None 3 (cache_set ''B'' 20 None 2 (cache_set ''A'' 10 None 1 (memory_cache 2)))"

text \<open>A cache of size 3 in which \<open>A\<close> is set, \<open>B\<close> is set, \<open>A\<close> is set again, and \<open>C\<close> is set.\<close>

definition cache_ABAC :: "nat CacheManager" where
  "cache_ABAC =
     cache_set ''C'' 30 None 4 (cache_set ''A'' 11 None 3
       (cache_set ''B'' 20 None 2 (cache_set ''A'' 10 None 1 (memory_cache 3))))"

subsection \<open>Python values\<close>

text \<open>
  The values that cross the service as JSON: \<^verbatim>\<open>None\<close>, booleans, integers, floats, strings,
  lists and dictionaries with string keys (kept as their list of items, in insertion
  order). A float is identified by the text that \<^verbatim>\<open>float.__repr__\<close> prints for it, which is
  what \<^verbatim>\<open>json.dumps\<close> writes. A Python string is a \<^typ>\<open>string\<close>, each character a code
  point below 256.
\<close>

datatype json = JNull | JBool bool | JInt int | JFloat string | JStr string
  | JList "json list" | JDict "(string \<times> json) list"

text \<open>Truth value testing, as \<^verbatim>\<open>if x:\<close> does it.\<close>

fun py_truthy :: "json \<Rightarrow> bool" where
  "py_truthy JNull = False"
| "py_truthy (JBool b) = b"
| "py_truthy (JInt i) = (i \<noteq> 0)"
| "py_truthy (JFloat r) = (r \<noteq> ''0.0'' \<and> r \<noteq> ''-0.0'')"
| "py_truthy (JStr s) = (s \<noteq> [])"
| "py_truthy (JList xs) = (xs \<noteq> [])"
| "py_truthy (JDict kvs) = (kvs \<noteq> [])"

text \<open>\<^verbatim>\<open>d.get(k)\<close> and \<^verbatim>\<open>d.get(k, default)\<close> on a dictionary kept as its items.\<close>

definition dict_get :: "(string \<times> 'v) list \<Rightarrow> string \<Rightarrow> 'v option" where
  "dict_get d k = map_of d k"

definition dict_get_default :: "(string \<times> 'v) list \<Rightarrow> string \<Rightarrow> 'v \<Rightarrow> 'v" where
  "dict_get_default d k dflt = (case map_of d k of None \<Rightarrow> dflt | Some v \<Rightarrow> v)"

subsection \<open>handlers/chat.py\<close>

type_synonym message = "(string \<times> json) list"

text \<open>The request parameters: the keys \<^verbatim>\<open>messages\<close>, \<^verbatim>\<open>model\<close> and \<^verbatim>\<open>stream\<close> that the handler
  reads, and the other items of the dictionary.\<close>

record chat_params =
  p_messages :: "message list"
  p_model :: "string option"
  p_stream :: bool
  p_other :: "(string \<times> json) list"

text \<open>What an adapter's \<^verbatim>\<open>chat\<close> is called with besides the messages: the selected model
  and the parameters other than \<^verbatim>\<open>messages\<close>, \<^verbatim>\<open>stream\<close> and \<^verbatim>\<open>model\<close>.\<close>

record adapter_params =
  ap_model :: string
  ap_other :: "(string \<times> json) list"

text \<open>
  An adapter is an object with a state of its own and its \<^verbatim>\<open>chat\<close> coroutine: awaited in
  a state on the messages and the parameters, it answers with the result or with the
  exception it raises, and leaves the adapter in a new state. So every await of \<^verbatim>\<open>chat\<close>
  is one step of the adapter's state.
\<close>

record 'a adapter =
  a_state :: 'a
  a_chat :: "'a \<Rightarrow> message list \<Rightarrow> adapter_params \<Rightarrow> (exn + json) \<times> 'a"

text \<open>
  The model router as the handler uses it: a state and the four methods the handler
  calls, each given the instant at which it runs. \<open>select_model\<close> may raise (no adapter
  configured); an adapter name may be \<^verbatim>\<open>None\<close>.
\<close>

record 'st router =
  r_state :: 'st
  r_select_model ::
    "'st \<Rightarrow> message list \<Rightarrow> string option \<Rightarrow> (string \<times> string) list
       \<Rightarrow> exn + (string \<times> string option)"
  r_record_success :: "'st \<Rightarrow> string \<Rightarrow> real \<Rightarrow> real \<Rightarrow> 'st"
  r_record_failure :: "'st \<Rightarrow> string \<Rightarrow> real \<Rightarrow> 'st"
  r_get_fallback_model :: "'st \<Rightarrow> string \<Rightarrow> real \<Rightarrow> (string \<times> string option) option \<times> 'st"

text \<open>The handler: its adapters by name (each adapter configured under one name), and the
  components attached by \<^verbatim>\<open>set_components\<close>.\<close>

record ('a, 'st) ChatHandler =
  adapters :: "(string \<times> 'a adapter) list"
  cache_manager :: "json CacheManager option"
  model_router :: "'st router option"

text \<open>The responses of \<^verbatim>\<open>handle_chat\<close>, one constructor for each shape of dictionary:
  \<^verbatim>\<open>{status: error, error}\<close>; \<^verbatim>\<open>{status: success, data, cached: True}\<close>;
  \<^verbatim>\<open>{status: streaming, adapter, adapter_name, params}\<close>;
  \<^verbatim>\<open>{status: success, data, adapter_name}\<close>;
  \<^verbatim>\<open>{status: success, data, adapter_name, fallback_used: True, original_model}\<close>.\<close>

datatype response =
    RespError string
  | RespCached json
  | RespStreaming "string option" adapter_params
  | RespSuccess json "string option"
  | RespFallback json "string option" string

text \<open>The places of \<^verbatim>\<open>handle_chat\<close> that read the clock, itself or through a component.\<close>

datatype chat_site = T_start | T_cache_get | T_done | T_cache_set | T_failure | T_fallback

text \<open>\<^verbatim>\<open>self.adapters.get(name)\<close>, where the name may be \<^verbatim>\<open>None\<close>.\<close>

definition adapters_get :: "(string \<times> 'a adapter) list \<Rightarrow> string option \<Rightarrow> 'a adapter option" where
  "adapters_get ads name = (case name of None \<Rightarrow> None | Some n \<Rightarrow> map_of ads n)"

text \<open>The adapters once the adapter of the given name has moved to a new state.\<close>

definition adapters_put ::
  "string option \<Rightarrow> 'a adapter \<Rightarrow> (string \<times> 'a adapter) list \<Rightarrow> (string \<times> 'a adapter) list" where
  "adapters_put name ad ads =
     (case name of
        None \<Rightarrow> ads
      | Some n \<Rightarrow> map (\<lambda>(k, v). if k = n then (k, ad) else (k, v)) ads)"

text \<open>\<^verbatim>\<open>await adapter.chat(messages, **adapter_params)\<close> on the adapter configured as \<open>name\<close>:
  the outcome, and the handler with that adapter in its new state.\<close>

definition await_chat ::
  "string option \<Rightarrow> 'a adapter \<Rightarrow> message list \<Rightarrow> adapter_params \<Rightarrow> ('a, 'st) ChatHandler
     \<Rightarrow> (exn + json) \<times> ('a, 'st) ChatHandler" where
  "await_chat name ad msgs aparams h =
     (let (outcome, s) = a_chat ad (a_state ad) msgs aparams
      in (outcome, h\<lparr>adapters := adapters_put name (ad\<lparr>a_state := s\<rparr>) (adapters h)\<rparr>))"

definition startswith :: "string \<Rightarrow> string \<Rightarrow> bool" where
  "startswith s pre \<longleftrightarrow> take (length pre) s = pre"

text \<open>\<^verbatim>\<open>ChatHandler._select_adapter\<close> followed by \<^verbatim>\<open>ChatHandler._get_adapter_name\<close>: the key
  under which the selected adapter is configured (each adapter being configured under
  one key), if any.\<close>

definition select_adapter :: "(string \<times> 'a adapter) list \<Rightarrow> string \<Rightarrow> string option" where
  "select_adapter ads model =
     (let has = (\<lambda>n. if n \<in> fst ` set ads then Some n else None) in
      if CHR ''/'' \<in> set model then has ''openrouter''
      else if CHR '':'' \<in> set model
              \<or> model \<in> set [''llama2'', ''codellama'', ''mistral'', ''mixtral'', ''gemma'', ''qwen'']
           then has ''ollama''
      else if startswith model ''gpt'' \<or> startswith model ''dall-e'' \<or> model = ''whisper-1''
           then has ''openai''
      else if startswith model ''claude'' then has ''anthropic''
      else if startswith model ''gemini'' then has ''google''
      else if ''ollama'' \<in> fst ` set ads then has ''ollama''
      else has ''openai'')"

text \<open>
  \<^verbatim>\<open>ChatHandler.handle_chat\<close>, in three parts: \<open>chat_fallback\<close> is the handler of the
  adapter's exception, \<open>cache_lookup\<close> the cache check at the head, \<open>handle_chat\<close> the
  whole. Each \<^verbatim>\<open>await ... .chat(...)\<close> of the source is one \<open>await_chat\<close>. \<open>cache_key\<close> is \<^verbatim>\<open>self._generate_cache_key\<close>, a digest of the request. The result
  is the response with the handler as the call leaves it. Every exception raised inside
  is caught by the outer handler and reported with its message.
\<close>

definition chat_fallback ::
  "(chat_site \<Rightarrow> real) \<Rightarrow> chat_params \<Rightarrow> adapter_params \<Rightarrow> string \<Rightarrow> exn
     \<Rightarrow> ('a, 'st) ChatHandler \<Rightarrow> response \<times> ('a, 'st) ChatHandler" where
  "chat_fallback clk params aparams model adapter_error h =
     (case model_router h of
        None \<Rightarrow> (RespError (exn_message adapter_error), h)
      | Some r \<Rightarrow>
          (let st1 = r_record_failure r (r_state r) model (clk T_failure);
               (fallback_info, st2) = r_get_fallback_model r st1 model (clk T_fallback);
               h1 = h\<lparr>model_router := Some (r\<lparr>r_state := st2\<rparr>)\<rparr>
           in case fallback_info of
                None \<Rightarrow> (RespError (exn_message adapter_error), h1)
              | Some (fallback_model, fallback_adapter_name) \<Rightarrow>
                  (case adapters_get (adapters h1) fallback_adapter_name of
                     None \<Rightarrow> (RespError (exn_message adapter_error), h1)
                   | Some fallback_adapter \<Rightarrow>
                       (case await_chat fallback_adapter_name fallback_adapter
                               (p_messages params) (aparams\<lparr>ap_model := fallback_model\<rparr>) h1 of
                          (Inr result, h2) \<Rightarrow>
                            (RespFallback result fallback_adapter_name model, h2)
                        | (Inl fallback_error, h2) \<Rightarrow>
                            (RespError (exn_message adapter_error), h2)))))"

definition cache_lookup ::
  "(chat_params \<Rightarrow> string) \<Rightarrow> (chat_site \<Rightarrow> real) \<Rightarrow> chat_params \<Rightarrow> ('a, 'st) ChatHandler
     \<Rightarrow> json option \<times> ('a, 'st) ChatHandler" where
  "cache_lookup cache_key clk params h =
     (case cache_manager h of
        Some cm \<Rightarrow>
          if \<not> p_stream params then
            (let (v, cm1) = cache_get (cache_key params) (clk T_cache_get) cm
             in (v, h\<lparr>cache_manager := Some cm1\<rparr>))
          else (None, h)
      | None \<Rightarrow> (None, h))"

definition handle_chat ::
  "(chat_params \<Rightarrow> string) \<Rightarrow> (chat_site \<Rightarrow> real) \<Rightarrow> chat_params \<Rightarrow> (string \<times> string) list
     \<Rightarrow> ('a, 'st) ChatHandler \<Rightarrow> response \<times> ('a, 'st) ChatHandler" where
  "handle_chat cache_key clk params metadata h =
     (if p_messages params = [] then (RespError ''No messages provided'', h)
      else
       let (cached, h1) = cache_lookup cache_key clk params h
       in if (case cached of Some v \<Rightarrow> py_truthy v | None \<Rightarrow> False)
          then (RespCached (the cached), h1)
          else
           (case (case model_router h1 of
                    Some r \<Rightarrow>
                      r_select_model r (r_state r) (p_messages params) (p_model params) metadata
                  | None \<Rightarrow>
                      (let model = (case p_model params of
                                      None \<Rightarrow> ''gpt-3.5-turbo''
                                    | Some m \<Rightarrow> if m = [] then ''gpt-3.5-turbo'' else m)
                       in Inr (model, select_adapter (adapters h1) model))) of
              Inl e \<Rightarrow> (RespError (exn_message e), h1)
            | Inr (model, adapter_name) \<Rightarrow>
               (case adapters_get (adapters h1) adapter_name of
                  None \<Rightarrow> (RespError (''No adapter available for model: '' @ model), h1)
                | Some adapter \<Rightarrow>
                   (let aparams = \<lparr>ap_model = model, ap_other = p_other params\<rparr>
                    in if p_stream params then (RespStreaming adapter_name aparams, h1)
                       else
                        (case await_chat adapter_name adapter (p_messages params) aparams h1 of
                           (Inr result, h1a) \<Rightarrow>
                             (let h2 = (case model_router h1a of
                                          None \<Rightarrow> h1a
                                        | Some r \<Rightarrow>
                                            h1a\<lparr>model_router := Some (r\<lparr>r_state :=
                                               r_record_success r (r_state r) model
                                                 (clk T_done - clk T_start) (clk T_done)\<rparr>)\<rparr>);
                                  h3 = (case cache_manager h2 of
                                          None \<Rightarrow> h2
                                        | Some cm \<Rightarrow>
                                            if cache_key params = [] then h2
                                            else h2\<lparr>cache_manager := Some
                                               (cache_set (cache_key params) result None
                                                  (clk T_cache_set) cm)\<rparr>)
                              in (RespSuccess result adapter_name, h3))
                         | (Inl adapter_error, h1a) \<Rightarrow>
                             chat_fallback clk params aparams model adapter_error h1a)))))"

text \<open>For the examples: a router that sends every request to \<open>M1\<close> on adapter \<open>a1\<close>, counts
  the failures recorded with it, and offers \<open>M2\<close> on adapter \<open>a2\<close> as the fallback.\<close>

definition fixed_router :: "nat router" where
  "fixed_router =
     \<lparr>r_state = 0,
      r_select_model = (\<lambda>st msgs requested md. Inr (''M1'', Some ''a1'')),
      r_record_success = (\<lambda>st model rt now. st),
      r_record_failure = (\<lambda>st model now. Suc st),
      r_get_fallback_model = (\<lambda>st model now. (Some (''M2'', Some ''a2''), st))\<rparr>"

text \<open>Two adapters whose state counts the awaits of \<^verbatim>\<open>chat\<close>: one that always raises, one
  that answers with the model it was asked for.\<close>

definition failing_chat :: "nat \<Rightarrow> message list \<Rightarrow> adapter_params \<Rightarrow> (exn + json) \<times> nat" where
  "failing_chat n msgs ap =
     (Inl (Exn AdapterError (''down: '' @ ap_model ap) (Some ''ADAPTER_ERROR'')), Suc n)"

definition echo_chat :: "nat \<Rightarrow> message list \<Rightarrow> adapter_params \<Rightarrow> (exn + json) \<times> nat" where
  "echo_chat n msgs ap = (Inr (JDict [(''model'', JStr (ap_model ap))]), Suc n)"

definition failing_adapter :: "nat adapter" where
  "failing_adapter = \<lparr>a_state = 0, a_chat = failing_chat\<rparr>"

definition echo_adapter :: "nat adapter" where
  "echo_adapter = \<lparr>a_state = 0, a_chat = echo_chat\<rparr>"

definition hi_params :: chat_params where
  "hi_params =
     \<lparr>p_messages = [[(''role'', JStr ''user''), (''content'', JStr ''hi'')]],
      p_model = Some ''M1'', p_stream = False, p_other = []\<rparr>"

definition no_cache_key :: "chat_params \<Rightarrow> string" where
  "no_cache_key params = []"

definition chat_clock :: "chat_site \<Rightarrow> real" where
  "chat_clock site = 0"

text \<open>A handler with the fixed router, no cache, the failing adapter as \<open>a1\<close> and the given
  adapter as \<open>a2\<close>.\<close>

definition two_adapters :: "nat adapter \<Rightarrow> (nat, nat) ChatHandler" where
  "two_adapters a2 =
     \<lparr>adapters = [(''a1'', failing_adapter), (''a2'', a2)], cache_manager = None,
      model_router = Some fixed_router\<rparr>"

subsection \<open>ipc/protocol.py\<close>







































text \<open>Vocabulary for the properties of the limiter: a bucket admits a cost at an instant
  when its refilled token count covers it; \<open>depleted\<close> is the bucket after an admitted
  \<open>consume\<close>; \<open>rejected_by\<close> is the outcome reported for a bucket that rejected at
  \<open>t_consume\<close> and was asked for its wait time at \<open>t_wait\<close>; \<open>client_second_of\<close> and
  \<open>client_minute_of\<close> are the client's buckets as the call finds or creates them.\<close>

definition admits :: "real \<Rightarrow> real \<Rightarrow> TokenBucket \<Rightarrow> bool" where
  "admits n now b \<longleftrightarrow>
     n \<le> min (real_of_int (capacity b)) (tokens b + (now - last_refill b) * refill_rate b)"

definition depleted :: "real \<Rightarrow> real \<Rightarrow> TokenBucket \<Rightarrow> TokenBucket" where
  "depleted n now b = (refill now b)\<lparr>tokens := tokens (refill now b) - n\<rparr>"

definition rejected_by ::
  "real \<Rightarrow> real \<Rightarrow> real \<Rightarrow> TokenBucket \<Rightarrow> py_error + bool \<times> real option" where
  "rejected_by n t_consume t_wait b =
     (case fst (get_wait_time n t_wait (refill t_consume b)) of
        Inl e \<Rightarrow> Inl e
      | Inr wait_time \<Rightarrow> Inr (False, wait_time))"

definition client_second_of :: "(clock_site \<Rightarrow> real) \<Rightarrow> string \<Rightarrow> RateLimiter \<Rightarrow> TokenBucket" where
  "client_second_of clk client_id rl =
     (case client_second_buckets rl client_id of
        Some b \<Rightarrow> b
      | None \<Rightarrow> TokenBucket_init (client_burst_size (config rl))
                  (client_requests_per_second (config rl)) (clk CS_create))"

definition client_minute_of :: "(clock_site \<Rightarrow> real) \<Rightarrow> string \<Rightarrow> RateLimiter \<Rightarrow> TokenBucket" where
  "client_minute_of clk client_id rl =
     (case client_minute_buckets rl client_id of
        Some b \<Rightarrow> b
      | None \<Rightarrow> TokenBucket_init (py_int (client_requests_per_minute (config rl)))
                  (client_requests_per_minute (config rl) / 60) (clk CM_create))"

text \<open>The cost of a request as the specification words it: a high priority request costs
  the requested tokens divided by the multiplier.\<close>

definition spec_cost :: "RateLimitConfig \<Rightarrow> string \<Rightarrow> int \<Rightarrow> real" where
  "spec_cost cfg priority req_tokens =
     (if priority = ''high'' then real_of_int req_tokens / high_priority_multiplier cfg
      else real_of_int req_tokens)"

text \<open>A clock that reads the same instant at every place.\<close>

definition frozen_clock :: "real \<Rightarrow> clock_site \<Rightarrow> real" where
  "frozen_clock t site = t"

text \<open>A fresh limiter with the default limits and the priority adjustment switched off.\<close>

definition no_priority_limiter :: RateLimiter where
  "no_priority_limiter = RateLimiter_init (default_RateLimitConfig\<lparr>enable_priority := False\<rparr>) 0 0"

definition default_limiter :: RateLimiter where
  "default_limiter = RateLimiter_init default_RateLimitConfig 0 0"

section \<open>Properties\<close>

subsection \<open>Token bucket\<close>

lemma refill_tokens:
  "tokens (refill now b) =
     min (real_of_int (capacity b)) (tokens b + (now - last_refill b) * refill_rate b)"
  by (simp add: refill_def Let_def)

lemma refill_fields:
  "capacity (refill now b) = capacity b" "refill_rate (refill now b) = refill_rate b"
  "last_refill (refill now b) = now"
  by (simp_all add: refill_def Let_def)










subsection \<open>Rate limiter\<close>

lemma admits_refill: "admits n now b \<longleftrightarrow> n \<le> tokens (refill now b)"
  by (simp add: admits_def refill_tokens)

lemma consume_admits: "admits n now b \<Longrightarrow> consume n now b = (True, depleted n now b)"
  by (simp add: consume_def Let_def admits_refill depleted_def)

lemma consume_rejects: "\<not> admits n now b \<Longrightarrow> consume n now b = (False, refill now b)"
  by (simp add: consume_def Let_def admits_refill)

lemma get_client_second_fst:
  "fst (get_client_second (clk CS_create) cid rl) = client_second_of clk cid rl"
  by (simp add: get_client_second_def client_second_of_def Let_def split: option.split)

lemma client_second_of_upd:
  "client_second_of clk cid (rl\<lparr>total_requests := a\<rparr>) = client_second_of clk cid rl"
  "client_second_of clk cid (rl\<lparr>global_second_bucket := g\<rparr>) = client_second_of clk cid rl"
  "client_second_of clk cid (rl\<lparr>global_minute_bucket := g\<rparr>) = client_second_of clk cid rl"
  by (simp_all add: client_second_of_def split: option.split)

lemma get_client_second_snd:
  "global_second_bucket (snd (get_client_second now cid rl)) = global_second_bucket rl"
  "global_minute_bucket (snd (get_client_second now cid rl)) = global_minute_bucket rl"
  "client_minute_buckets (snd (get_client_second now cid rl)) = client_minute_buckets rl"
  "config (snd (get_client_second now cid rl)) = config rl"
  by (simp_all add: get_client_second_def Let_def split: option.split)

lemma get_client_minute_fst:
  "fst (get_client_minute (clk CM_create) cid rl) = client_minute_of clk cid rl"
  by (simp add: get_client_minute_def client_minute_of_def Let_def split: option.split)

lemma client_minute_of_upd:
  "client_minute_of clk cid (rl\<lparr>total_requests := a\<rparr>) = client_minute_of clk cid rl"
  "client_minute_of clk cid (rl\<lparr>global_second_bucket := g\<rparr>) = client_minute_of clk cid rl"
  "client_minute_of clk cid (rl\<lparr>global_minute_bucket := g\<rparr>) = client_minute_of clk cid rl"
  "client_minute_of clk cid (rl\<lparr>client_second_buckets := m\<rparr>) = client_minute_of clk cid rl"
  "client_minute_of clk cid (snd (get_client_second now cid' rl)) = client_minute_of clk cid rl"
  by (simp_all add: client_minute_of_def get_client_second_def Let_def split: option.split)

lemma get_client_minute_snd:
  "global_second_bucket (snd (get_client_minute now cid rl)) = global_second_bucket rl"
  "global_minute_bucket (snd (get_client_minute now cid rl)) = global_minute_bucket rl"
  "client_second_buckets (snd (get_client_minute now cid rl)) = client_second_buckets rl"
  "config (snd (get_client_minute now cid rl)) = config rl"
  by (simp_all add: get_client_minute_def Let_def split: option.split)

lemma record_rejection_fields:
  "global_second_bucket (record_rejection c rl) = global_second_bucket rl"
  "global_minute_bucket (record_rejection c rl) = global_minute_bucket rl"
  "client_second_buckets (record_rejection c rl) = client_second_buckets rl"
  "client_minute_buckets (record_rejection c rl) = client_minute_buckets rl"
  by (simp_all add: record_rejection_def)

lemma fst_case_sum_pair:
  "fst (case w of Inl e \<Rightarrow> (Inl e, s1) | Inr x \<Rightarrow> (Inr (False, x), s2))
     = (case w of Inl e \<Rightarrow> Inl e | Inr x \<Rightarrow> Inr (False, x))"
  by (cases w) simp_all

lemma snd_case_sum_pair:
  "f s1 = v \<Longrightarrow> f s2 = v \<Longrightarrow>
   f (snd (case w of Inl e \<Rightarrow> (Inl e, s1) | Inr x \<Rightarrow> (Inr (False, x), s2))) = v"
  by (cases w) simp_all

lemmas crl_simps = check_rate_limit_def Let_def case_prod_beta consume_rejects consume_admits
  rejected_by_def fst_case_sum_pair get_client_second_fst get_client_minute_fst
  get_client_second_snd get_client_minute_snd client_second_of_upd client_minute_of_upd

lemma crl_gs_reject:
  assumes "enabled (config rl)" "effective_tokens (config rl) priority t = Inr n"
    "\<not> admits n (clk GS_consume) (global_second_bucket rl)"
  shows "fst (check_rate_limit clk cid model priority t rl)
           = rejected_by n (clk GS_consume) (clk GS_wait) (global_second_bucket rl)"
    and "global_minute_bucket (snd (check_rate_limit clk cid model priority t rl)) = global_minute_bucket rl"
    and "client_second_buckets (snd (check_rate_limit clk cid model priority t rl)) = client_second_buckets rl"
    and "client_minute_buckets (snd (check_rate_limit clk cid model priority t rl)) = client_minute_buckets rl"
  using assms
  by (simp_all add: crl_simps snd_case_sum_pair record_rejection_fields)

lemma crl_gm_reject:
  assumes "enabled (config rl)" "effective_tokens (config rl) priority t = Inr n"
    "admits n (clk GS_consume) (global_second_bucket rl)"
    "\<not> admits n (clk GM_consume) (global_minute_bucket rl)"
  shows "fst (check_rate_limit clk cid model priority t rl)
           = rejected_by n (clk GM_consume) (clk GM_wait) (global_minute_bucket rl)"
    and "global_second_bucket (snd (check_rate_limit clk cid model priority t rl))
           = depleted n (clk GS_consume) (global_second_bucket rl)"
    and "client_second_buckets (snd (check_rate_limit clk cid model priority t rl)) = client_second_buckets rl"
    and "client_minute_buckets (snd (check_rate_limit clk cid model priority t rl)) = client_minute_buckets rl"
  using assms
  by (simp_all add: crl_simps snd_case_sum_pair record_rejection_fields)

lemma crl_cs_reject:
  assumes "enabled (config rl)" "effective_tokens (config rl) priority t = Inr n"
    "admits n (clk GS_consume) (global_second_bucket rl)"
    "admits n (clk GM_consume) (global_minute_bucket rl)"
    "\<not> admits n (clk CS_consume) (client_second_of clk cid rl)"
  shows "fst (check_rate_limit clk cid model priority t rl)
           = rejected_by n (clk CS_consume) (clk CS_wait) (client_second_of clk cid rl)"
    and "global_second_bucket (snd (check_rate_limit clk cid model priority t rl))
           = depleted n (clk GS_consume) (global_second_bucket rl)"
    and "global_minute_bucket (snd (check_rate_limit clk cid model priority t rl))
           = depleted n (clk GM_consume) (global_minute_bucket rl)"
    and "client_minute_buckets (snd (check_rate_limit clk cid model priority t rl)) = client_minute_buckets rl"
  using assms
  by (simp_all add: crl_simps snd_case_sum_pair record_rejection_fields)

lemma crl_cm_reject:
  assumes "enabled (config rl)" "effective_tokens (config rl) priority t = Inr n"
    "admits n (clk GS_consume) (global_second_bucket rl)"
    "admits n (clk GM_consume) (global_minute_bucket rl)"
    "admits n (clk CS_consume) (client_second_of clk cid rl)"
    "\<not> admits n (clk CM_consume) (client_minute_of clk cid rl)"
  shows "fst (check_rate_limit clk cid model priority t rl)
           = rejected_by n (clk CM_consume) (clk CM_wait) (client_minute_of clk cid rl)"
    and "global_second_bucket (snd (check_rate_limit clk cid model priority t rl))
           = depleted n (clk GS_consume) (global_second_bucket rl)"
    and "global_minute_bucket (snd (check_rate_limit clk cid model priority t rl))
           = depleted n (clk GM_consume) (global_minute_bucket rl)"
    and "client_second_buckets (snd (check_rate_limit clk cid model priority t rl)) cid
           = Some (depleted n (clk CS_consume) (client_second_of clk cid rl))"
  using assms
  by (simp_all add: crl_simps snd_case_sum_pair record_rejection_fields)

lemma crl_all_admit:
  assumes "enabled (config rl)" "effective_tokens (config rl) priority t = Inr n"
    "admits n (clk GS_consume) (global_second_bucket rl)"
    "admits n (clk GM_consume) (global_minute_bucket rl)"
    "admits n (clk CS_consume) (client_second_of clk cid rl)"
    "admits n (clk CM_consume) (client_minute_of clk cid rl)"
  shows "fst (check_rate_limit clk cid model priority t rl) = Inr (True, None)"
  using assms
  by (simp_all add: crl_simps)

lemma rejected_by_not_admitted: "rejected_by n tc tw b \<noteq> Inr (True, w)"
  by (simp add: rejected_by_def split: sum.splits)


lemma effective_tokens_cases:
  "enable_priority cfg \<and> priority = ''high'' \<longrightarrow> high_priority_multiplier cfg \<noteq> 0 \<Longrightarrow>
   effective_tokens cfg priority t =
     Inr (if enable_priority cfg \<and> priority = ''high''
          then real_of_int t / high_priority_multiplier cfg else real_of_int t)"
  by (simp add: effective_tokens_def)

lemma crl_verdict_iff:
  assumes en: "enabled (config rl)" and eff: "effective_tokens (config rl) priority t = Inr n"
  shows "fst (check_rate_limit clk cid model priority t rl) = Inr (True, None) \<longleftrightarrow>
     admits n (clk GS_consume) (global_second_bucket rl)
     \<and> admits n (clk GM_consume) (global_minute_bucket rl)
     \<and> admits n (clk CS_consume) (client_second_of clk cid rl)
     \<and> admits n (clk CM_consume) (client_minute_of clk cid rl)"
proof (cases "admits n (clk GS_consume) (global_second_bucket rl)")
  case False
  then show ?thesis using en eff by (simp add: crl_gs_reject(1) rejected_by_not_admitted)
next
  case gs: True
  show ?thesis
  proof (cases "admits n (clk GM_consume) (global_minute_bucket rl)")
    case False
    then show ?thesis using en eff gs by (simp add: crl_gm_reject(1) rejected_by_not_admitted)
  next
    case gm: True
    show ?thesis
    proof (cases "admits n (clk CS_consume) (client_second_of clk cid rl)")
      case False
      then show ?thesis using en eff gs gm
        by (simp add: crl_cs_reject(1) rejected_by_not_admitted)
    next
      case cs: True
      show ?thesis
      proof (cases "admits n (clk CM_consume) (client_minute_of clk cid rl)")
        case False
        then show ?thesis using en eff gs gm cs
          by (simp add: crl_cm_reject(1) rejected_by_not_admitted)
      next
        case True
        then show ?thesis using en eff gs gm cs by (simp add: crl_all_admit)
      qed
    qed
  qed
qed

text \<open>
  C4, as the code has it. On an enabled limiter the cost of a request is the requested
  tokens, divided by the multiplier when the request is \<open>high\<close> and the configuration's
  \<open>enable_priority\<close> flag is set (the multiplier not being zero). The buckets are tried in
  the order global-second, global-minute, client-second, client-minute: the first one that
  does not admit the cost decides the outcome, which is \<open>(False, wait_time)\<close> with the wait
  time that bucket reports (or the error its division by a zero rate raises), and the
  buckets after it are left as they were; the outcome is \<open>(True, None)\<close> exactly when all
  four admit the cost.
\<close>

theorem check_rate_limit_order:
  assumes "enabled (config rl)"
    and "enable_priority (config rl) \<and> priority = ''high''
           \<longrightarrow> high_priority_multiplier (config rl) \<noteq> 0"
    and "n = (if enable_priority (config rl) \<and> priority = ''high''
              then real_of_int t / high_priority_multiplier (config rl) else real_of_int t)"
    and "res = check_rate_limit clk cid model priority t rl"
  shows
   "(\<not> admits n (clk GS_consume) (global_second_bucket rl) \<longrightarrow>
        fst res = rejected_by n (clk GS_consume) (clk GS_wait) (global_second_bucket rl)
      \<and> global_minute_bucket (snd res) = global_minute_bucket rl
      \<and> client_second_buckets (snd res) = client_second_buckets rl
      \<and> client_minute_buckets (snd res) = client_minute_buckets rl)
    \<and> (admits n (clk GS_consume) (global_second_bucket rl)
        \<and> \<not> admits n (clk GM_consume) (global_minute_bucket rl) \<longrightarrow>
        fst res = rejected_by n (clk GM_consume) (clk GM_wait) (global_minute_bucket rl)
      \<and> client_second_buckets (snd res) = client_second_buckets rl
      \<and> client_minute_buckets (snd res) = client_minute_buckets rl)
    \<and> (admits n (clk GS_consume) (global_second_bucket rl)
        \<and> admits n (clk GM_consume) (global_minute_bucket rl)
        \<and> \<not> admits n (clk CS_consume) (client_second_of clk cid rl) \<longrightarrow>
        fst res = rejected_by n (clk CS_consume) (clk CS_wait) (client_second_of clk cid rl)
      \<and> client_minute_buckets (snd res) = client_minute_buckets rl)
    \<and> (admits n (clk GS_consume) (global_second_bucket rl)
        \<and> admits n (clk GM_consume) (global_minute_bucket rl)
        \<and> admits n (clk CS_consume) (client_second_of clk cid rl)
        \<and> \<not> admits n (clk CM_consume) (client_minute_of clk cid rl) \<longrightarrow>
        fst res = rejected_by n (clk CM_consume) (clk CM_wait) (client_minute_of clk cid rl))
    \<and> (fst res = Inr (True, None) \<longleftrightarrow>
        admits n (clk GS_consume) (global_second_bucket rl)
        \<and> admits n (clk GM_consume) (global_minute_bucket rl)
        \<and> admits n (clk CS_consume) (client_second_of clk cid rl)
        \<and> admits n (clk CM_consume) (client_minute_of clk cid rl))"
proof -
  have en: "enabled (config rl)" by (rule assms(1))
  have eff: "effective_tokens (config rl) priority t = Inr n"
    using effective_tokens_cases [OF assms(2)] assms(3) by simp
  note res = assms(4)
  show ?thesis
  proof (intro conjI impI)
    assume a: "\<not> admits n (clk GS_consume) (global_second_bucket rl)"
    show "fst res = rejected_by n (clk GS_consume) (clk GS_wait) (global_second_bucket rl)"
      "global_minute_bucket (snd res) = global_minute_bucket rl"
      "client_second_buckets (snd res) = client_second_buckets rl"
      "client_minute_buckets (snd res) = client_minute_buckets rl"
      unfolding res using en eff a by (simp_all add: crl_gs_reject)
  next
    assume a: "admits n (clk GS_consume) (global_second_bucket rl)
        \<and> \<not> admits n (clk GM_consume) (global_minute_bucket rl)"
    show "fst res = rejected_by n (clk GM_consume) (clk GM_wait) (global_minute_bucket rl)"
      "client_second_buckets (snd res) = client_second_buckets rl"
      "client_minute_buckets (snd res) = client_minute_buckets rl"
      unfolding res using en eff a by (simp_all add: crl_gm_reject)
  next
    assume a: "admits n (clk GS_consume) (global_second_bucket rl)
        \<and> admits n (clk GM_consume) (global_minute_bucket rl)
        \<and> \<not> admits n (clk CS_consume) (client_second_of clk cid rl)"
    show "fst res = rejected_by n (clk CS_consume) (clk CS_wait) (client_second_of clk cid rl)"
      "client_minute_buckets (snd res) = client_minute_buckets rl"
      unfolding res using en eff a by (simp_all add: crl_cs_reject)
  next
    assume a: "admits n (clk GS_consume) (global_second_bucket rl)
        \<and> admits n (clk GM_consume) (global_minute_bucket rl)
        \<and> admits n (clk CS_consume) (client_second_of clk cid rl)
        \<and> \<not> admits n (clk CM_consume) (client_minute_of clk cid rl)"
    show "fst res = rejected_by n (clk CM_consume) (clk CM_wait) (client_minute_of clk cid rl)"
      unfolding res using en eff a by (simp add: crl_cm_reject(1))
  next
    show "fst res = Inr (True, None) \<longleftrightarrow>
        admits n (clk GS_consume) (global_second_bucket rl)
        \<and> admits n (clk GM_consume) (global_minute_bucket rl)
        \<and> admits n (clk CS_consume) (client_second_of clk cid rl)
        \<and> admits n (clk CM_consume) (client_minute_of clk cid rl)"
      unfolding res using en eff by (rule crl_verdict_iff)
  qed
qed

lemmas limiter_eval = no_priority_limiter_def default_limiter_def RateLimiter_init_def
  default_RateLimitConfig_def TokenBucket_init_def admits_def spec_cost_def frozen_clock_def
  client_second_of_def client_minute_of_def py_int_def check_rate_limit_def
  effective_tokens_def consume_def refill_def get_wait_time_def get_client_second_def
  get_client_minute_def record_rejection_def stats_of_def rejected_by_def depleted_def Let_def

text \<open>With the priority adjustment switched off, a \<open>high\<close> request for 8 tokens is charged
  8, not 4: every bucket of a fresh default limiter admits the halved cost the claim
  promises, yet the client-second bucket (capacity 5) rejects the call.\<close>

theorem check_rate_limit_priority_counterexample:
  "enabled (config no_priority_limiter)
   \<and> admits (spec_cost (config no_priority_limiter) ''high'' 8) 0
         (global_second_bucket no_priority_limiter)
   \<and> admits (spec_cost (config no_priority_limiter) ''high'' 8) 0
         (global_minute_bucket no_priority_limiter)
   \<and> admits (spec_cost (config no_priority_limiter) ''high'' 8) 0
         (client_second_of (frozen_clock 0) ''client'' no_priority_limiter)
   \<and> admits (spec_cost (config no_priority_limiter) ''high'' 8) 0
         (client_minute_of (frozen_clock 0) ''client'' no_priority_limiter)
   \<and> fst (check_rate_limit (frozen_clock 0) ''client'' None ''high'' 8 no_priority_limiter)
        = Inr (False, Some (3 / 2))"
  by (simp add: limiter_eval)

text \<open>The theorem on a fresh default limiter: a \<open>high\<close> request for 8 tokens costs 4 and
  passes; one for 12 costs 6 and is rejected by the client-second bucket before the
  client-minute bucket exists.\<close>

theorem check_rate_limit_order_witness:
  "enabled (config default_limiter)
   \<and> fst (check_rate_limit (frozen_clock 0) ''client'' None ''high'' 8 default_limiter)
        = Inr (True, None)
   \<and> fst (check_rate_limit (frozen_clock 0) ''client'' None ''high'' 12 default_limiter)
        = Inr (False, Some (1 / 2))
   \<and> client_minute_buckets
        (snd (check_rate_limit (frozen_clock 0) ''client'' None ''high'' 12 default_limiter))
        = Map.empty"
  using check_rate_limit_order [where rl = default_limiter and priority = "''high''" and t = 8
          and n = 4 and clk = "frozen_clock 0" and cid = "''client''" and model = None
          and res = "check_rate_limit (frozen_clock 0) ''client'' None ''high'' 8 default_limiter"]
        check_rate_limit_order [where rl = default_limiter and priority = "''high''" and t = 12
          and n = 6 and clk = "frozen_clock 0" and cid = "''client''" and model = None
          and res = "check_rate_limit (frozen_clock 0) ''client'' None ''high'' 12 default_limiter"]
  by (simp add: limiter_eval)

text \<open>
  C10. When a later bucket rejects the request, every bucket that admitted it before is
  left depleted by the cost: nothing the earlier buckets gave is handed back.
\<close>

theorem rejected_request_not_refunded:
  assumes "enabled (config rl)"
    and "effective_tokens (config rl) priority t = Inr n"
    and "res = check_rate_limit clk cid model priority t rl"
  shows
   "(admits n (clk GS_consume) (global_second_bucket rl)
        \<and> \<not> admits n (clk GM_consume) (global_minute_bucket rl) \<longrightarrow>
        fst res = rejected_by n (clk GM_consume) (clk GM_wait) (global_minute_bucket rl)
      \<and> global_second_bucket (snd res) = depleted n (clk GS_consume) (global_second_bucket rl))
    \<and> (admits n (clk GS_consume) (global_second_bucket rl)
        \<and> admits n (clk GM_consume) (global_minute_bucket rl)
        \<and> \<not> admits n (clk CS_consume) (client_second_of clk cid rl) \<longrightarrow>
        fst res = rejected_by n (clk CS_consume) (clk CS_wait) (client_second_of clk cid rl)
      \<and> global_second_bucket (snd res) = depleted n (clk GS_consume) (global_second_bucket rl)
      \<and> global_minute_bucket (snd res) = depleted n (clk GM_consume) (global_minute_bucket rl))
    \<and> (admits n (clk GS_consume) (global_second_bucket rl)
        \<and> admits n (clk GM_consume) (global_minute_bucket rl)
        \<and> admits n (clk CS_consume) (client_second_of clk cid rl)
        \<and> \<not> admits n (clk CM_consume) (client_minute_of clk cid rl) \<longrightarrow>
        fst res = rejected_by n (clk CM_consume) (clk CM_wait) (client_minute_of clk cid rl)
      \<and> global_second_bucket (snd res) = depleted n (clk GS_consume) (global_second_bucket rl)
      \<and> global_minute_bucket (snd res) = depleted n (clk GM_consume) (global_minute_bucket rl)
      \<and> client_second_buckets (snd res) cid
           = Some (depleted n (clk CS_consume) (client_second_of clk cid rl)))
    \<and> (\<forall>w. rejected_by n tc tw b \<noteq> Inr (True, w))
    \<and> tokens (depleted n now b)
         = min (real_of_int (capacity b)) (tokens b + (now - last_refill b) * refill_rate b) - n"
proof (intro conjI impI allI)
  note res = assms(3) and en = assms(1) and eff = assms(2)
  {
    assume a: "admits n (clk GS_consume) (global_second_bucket rl)
        \<and> \<not> admits n (clk GM_consume) (global_minute_bucket rl)"
    show "fst res = rejected_by n (clk GM_consume) (clk GM_wait) (global_minute_bucket rl)"
      "global_second_bucket (snd res) = depleted n (clk GS_consume) (global_second_bucket rl)"
      unfolding res using en eff a by (simp_all add: crl_gm_reject)
  next
    assume a: "admits n (clk GS_consume) (global_second_bucket rl)
        \<and> admits n (clk GM_consume) (global_minute_bucket rl)
        \<and> \<not> admits n (clk CS_consume) (client_second_of clk cid rl)"
    show "fst res = rejected_by n (clk CS_consume) (clk CS_wait) (client_second_of clk cid rl)"
      "global_second_bucket (snd res) = depleted n (clk GS_consume) (global_second_bucket rl)"
      "global_minute_bucket (snd res) = depleted n (clk GM_consume) (global_minute_bucket rl)"
      unfolding res using en eff a by (simp_all add: crl_cs_reject)
  next
    assume a: "admits n (clk GS_consume) (global_second_bucket rl)
        \<and> admits n (clk GM_consume) (global_minute_bucket rl)
        \<and> admits n (clk CS_consume) (client_second_of clk cid rl)
        \<and> \<not> admits n (clk CM_consume) (client_minute_of clk cid rl)"
    show "fst res = rejected_by n (clk CM_consume) (clk CM_wait) (client_minute_of clk cid rl)"
      "global_second_bucket (snd res) = depleted n (clk GS_consume) (global_second_bucket rl)"
      "global_minute_bucket (snd res) = depleted n (clk GM_consume) (global_minute_bucket rl)"
      "client_second_buckets (snd res) cid
           = Some (depleted n (clk CS_consume) (client_second_of clk cid rl))"
      unfolding res using en eff a by (simp_all add: crl_cm_reject)
  }
  show "rejected_by n tc tw b \<noteq> Inr (True, w)" for w by (rule rejected_by_not_admitted)
  show "tokens (depleted n now b)
         = min (real_of_int (capacity b)) (tokens b + (now - last_refill b) * refill_rate b) - n"
    by (simp add: depleted_def refill_tokens)
qed

text \<open>A normal request for 6 tokens on a fresh default limiter: the client-second bucket
  rejects it, and the global buckets keep the 6 tokens they gave.\<close>

theorem rejected_request_not_refunded_witness:
  "fst (check_rate_limit (frozen_clock 0) ''client'' None ''normal'' 6 default_limiter)
        = Inr (False, Some (1 / 2))
   \<and> tokens (global_second_bucket default_limiter) = 20
   \<and> tokens (global_second_bucket
        (snd (check_rate_limit (frozen_clock 0) ''client'' None ''normal'' 6 default_limiter))) = 14
   \<and> tokens (global_minute_bucket default_limiter) = 100
   \<and> tokens (global_minute_bucket
        (snd (check_rate_limit (frozen_clock 0) ''client'' None ''normal'' 6 default_limiter))) = 94"
  using rejected_request_not_refunded [where rl = default_limiter and priority = "''normal''"
          and t = 6 and n = 6 and clk = "frozen_clock 0" and cid = "''client''" and model = None
          and res = "check_rate_limit (frozen_clock 0) ''client'' None ''normal'' 6 default_limiter"]
  by (simp add: limiter_eval)

subsection \<open>Circuit breaker\<close>

lemma breaker_step_threshold: "failure_threshold (breaker_step ev cb) = failure_threshold cb"
  "recovery_timeout (breaker_step ev cb) = recovery_timeout cb"
  by (cases ev; simp add: record_success_def record_failure_def can_attempt_def Let_def
        split: option.split)+

lemma breaker_run_threshold: "failure_threshold (breaker_run evs cb) = failure_threshold cb"
  "recovery_timeout (breaker_run evs cb) = recovery_timeout cb"
  by (induction evs arbitrary: cb; simp add: breaker_step_threshold)+

lemma breaker_inv_step: "breaker_inv cb \<Longrightarrow> breaker_inv (breaker_step ev cb)"
  by (cases ev)
     (auto simp add: breaker_inv_def record_success_def record_failure_def can_attempt_def
        Let_def split: option.splits if_splits)

lemma breaker_inv_run: "breaker_inv cb \<Longrightarrow> breaker_inv (breaker_run evs cb)"
  by (induction evs arbitrary: cb) (simp_all add: breaker_inv_step)

lemma breaker_inv_init: "breaker_inv (CircuitBreaker_init th rt)"
  by (simp add: breaker_inv_def CircuitBreaker_init_def)

lemma tripped_breaker_eq:
  "tripped_breaker = \<lparr>failure_threshold = 5, recovery_timeout = 60, failure_count = 5,
      last_failure_time = Some 0, state = Open\<rparr>"
  by (simp add: tripped_breaker_def CircuitBreaker_init_def record_failure_def Let_def)

text \<open>A half-open breaker does not stop at one attempt: once the timeout has moved the
  tripped breaker to half-open, a second and a third \<open>can_attempt\<close> are allowed as well,
  with nothing recorded in between.\<close>

theorem CircuitBreaker_half_open_counterexample:
  "state tripped_breaker = Open
   \<and> can_attempt 60 tripped_breaker = (Inr True, tripped_breaker\<lparr>state := HalfOpen\<rparr>)
   \<and> can_attempt 60 (tripped_breaker\<lparr>state := HalfOpen\<rparr>)
        = (Inr True, tripped_breaker\<lparr>state := HalfOpen\<rparr>)
   \<and> can_attempt 61 (tripped_breaker\<lparr>state := HalfOpen\<rparr>)
        = (Inr True, tripped_breaker\<lparr>state := HalfOpen\<rparr>)"
  by (simp add: tripped_breaker_eq can_attempt_def)

text \<open>
  C5, as the code has it. A breaker starts closed with a count of zero. Each recorded
  failure adds one to the count and stamps the instant; when the count reaches the
  threshold the breaker is open. An open breaker refuses attempts until the recovery
  timeout has elapsed since the last failure; the first \<open>can_attempt\<close> after that returns
  true and leaves the breaker half-open. A half-open breaker allows every attempt until
  a result is recorded. A recorded success, in any state, sets the count to zero and
  closes the breaker; a recorded failure on a half-open breaker opens it again. All of
  this for every breaker reached from a new one by any sequence of calls.
\<close>

theorem CircuitBreaker_state_machine:
  assumes "cb = breaker_run evs (CircuitBreaker_init threshold timeout)"
  shows
   "state (CircuitBreaker_init threshold timeout) = Closed
    \<and> failure_count (CircuitBreaker_init threshold timeout) = 0
    \<and> failure_count (record_failure now cb) = failure_count cb + 1
    \<and> last_failure_time (record_failure now cb) = Some now
    \<and> (threshold \<le> failure_count cb + 1 \<longrightarrow> state (record_failure now cb) = Open)
    \<and> (failure_count cb + 1 < threshold \<longrightarrow> state (record_failure now cb) = state cb)
    \<and> (state cb = Closed \<longrightarrow> can_attempt now cb = (Inr True, cb))
    \<and> (state cb = Open \<longrightarrow>
          (\<exists>t. last_failure_time cb = Some t
             \<and> (now - t < real_of_int timeout \<longrightarrow> can_attempt now cb = (Inr False, cb))
             \<and> (real_of_int timeout \<le> now - t \<longrightarrow>
                   can_attempt now cb = (Inr True, cb\<lparr>state := HalfOpen\<rparr>))))
    \<and> (state cb = HalfOpen \<longrightarrow> can_attempt now cb = (Inr True, cb))
    \<and> record_success cb = cb\<lparr>failure_count := 0, state := Closed\<rparr>
    \<and> (state cb = HalfOpen \<longrightarrow> state (record_failure now cb) = Open)"
proof -
  have th: "failure_threshold cb = threshold" and rt: "recovery_timeout cb = timeout"
    unfolding assms by (simp_all add: breaker_run_threshold CircuitBreaker_init_def)
  have inv: "breaker_inv cb"
    unfolding assms by (rule breaker_inv_run [OF breaker_inv_init])
  show ?thesis
  proof (intro conjI impI)
    show "state (CircuitBreaker_init threshold timeout) = Closed"
      "failure_count (CircuitBreaker_init threshold timeout) = 0"
      by (simp_all add: CircuitBreaker_init_def)
    show "failure_count (record_failure now cb) = failure_count cb + 1"
      "last_failure_time (record_failure now cb) = Some now"
      by (simp_all add: record_failure_def Let_def)
    show "state (record_failure now cb) = Open" if "threshold \<le> failure_count cb + 1"
      using that th by (simp add: record_failure_def Let_def)
    show "state (record_failure now cb) = state cb" if "failure_count cb + 1 < threshold"
      using that th by (simp add: record_failure_def Let_def)
    show "can_attempt now cb = (Inr True, cb)" if "state cb = Closed"
      using that by (simp add: can_attempt_def)
    show "\<exists>t. last_failure_time cb = Some t
             \<and> (now - t < real_of_int timeout \<longrightarrow> can_attempt now cb = (Inr False, cb))
             \<and> (real_of_int timeout \<le> now - t \<longrightarrow>
                   can_attempt now cb = (Inr True, cb\<lparr>state := HalfOpen\<rparr>))"
      if "state cb = Open"
    proof -
      from inv that obtain t where t: "last_failure_time cb = Some t"
        by (auto simp add: breaker_inv_def)
      show ?thesis using that t rt by (simp add: can_attempt_def)
    qed
    show "can_attempt now cb = (Inr True, cb)" if "state cb = HalfOpen"
      using that by (simp add: can_attempt_def)
    show "record_success cb = cb\<lparr>failure_count := 0, state := Closed\<rparr>"
      by (simp add: record_success_def)
    show "state (record_failure now cb) = Open" if "state cb = HalfOpen"
      using that inv by (simp add: record_failure_def Let_def breaker_inv_def)
  qed
qed

text \<open>The scenario of the specification: five failures trip a default breaker; it refuses at
  59 seconds, allows at 60 and is half-open; a success from there closes it with count 0,
  a failure reopens it.\<close>

theorem CircuitBreaker_state_machine_witness:
  "state tripped_breaker = Open
   \<and> can_attempt 59 tripped_breaker = (Inr False, tripped_breaker)
   \<and> can_attempt 60 tripped_breaker = (Inr True, tripped_breaker\<lparr>state := HalfOpen\<rparr>)
   \<and> record_success (tripped_breaker\<lparr>state := HalfOpen\<rparr>) = CircuitBreaker_init 5 60\<lparr>last_failure_time := Some 0\<rparr>
   \<and> state (record_failure 61 (breaker_run [Failure 0, Failure 0, Failure 0, Failure 0, Failure 0, Attempt 60]
       (CircuitBreaker_init 5 60))) = Open"
  using CircuitBreaker_state_machine [where cb = tripped_breaker and threshold = 5 and timeout = 60
          and evs = "[Failure 0, Failure 0, Failure 0, Failure 0, Failure 0]" and now = 59]
        CircuitBreaker_state_machine [where cb = tripped_breaker and threshold = 5 and timeout = 60
          and evs = "[Failure 0, Failure 0, Failure 0, Failure 0, Failure 0]" and now = 60]
        CircuitBreaker_state_machine [where threshold = 5 and timeout = 60 and now = 61
          and cb = "breaker_run [Failure 0, Failure 0, Failure 0, Failure 0, Failure 0, Attempt 60]
       (CircuitBreaker_init 5 60)"
          and evs = "[Failure 0, Failure 0, Failure 0, Failure 0, Failure 0, Attempt 60]"]
  by (simp add: tripped_breaker_def CircuitBreaker_init_def record_failure_def Let_def
        can_attempt_def record_success_def)

subsection \<open>Retry wrapper\<close>

lemma except_block_world: "snd (except_block e sn hw) = snd hw"
  by (simp add: except_block_def Let_def case_prod_beta)

lemma except_block_retries: "retries (fst (except_block e sn hw)) = retries (fst hw)"
  "eh_config (fst (except_block e sn hw)) = eh_config (fst hw)"
  by (simp_all add: except_block_def Let_def case_prod_beta record_error_def
        get_circuit_breaker_def split: option.split)

text \<open>Validation and rate-limit errors leave the loop at once: the handler counts the
  error, records the failure on the breaker and re-raises, with no sleep and no retry
  counted.\<close>

lemma not_retried:
  assumes "try_block f sn attempt hw = (Inl e, hw1)"
    and "exn_class e = ValidationError \<or> exn_class e = RateLimitError"
  shows "with_retry_loop (Suc k) attempt f sn last_error hw = (Inl e, except_block e sn hw1)"
  using assms by (simp add: should_retry_def case_prod_beta Let_def)

lemma not_retried_first:
  assumes "try_block f sn 0 hw = (Inl e, hw1)"
    and "exn_class e = ValidationError \<or> exn_class e = RateLimitError"
    and "0 \<le> max_retries (eh_config (fst hw))"
  shows "with_retry f sn hw = (Inl e, except_block e sn hw1)"
proof -
  from assms(3) obtain k where "nat (max_retries (eh_config (fst hw)) + 1) = Suc k"
    by (cases "nat (max_retries (eh_config (fst hw)) + 1)") auto
  then show ?thesis unfolding with_retry_def using not_retried [OF assms(1,2)] by simp
qed

lemmas retry_eval = with_retry_def tripped_handler_def tripped_breaker_def
  CircuitBreaker_init_def ErrorHandler_init_def default_ErrorConfig_def
  world_at_def try_block_def except_block_def should_retry_def breaker_on_def
  get_circuit_breaker_def can_attempt_def record_failure_def record_error_def sleep_def
  circuit_open_error_def Let_def eval_nat_numeral

text \<open>
  C1, at a service whose breaker is open with its timeout not elapsed, under the
  default configuration. The wrapper does end with the \<open>CIRCUIT_BREAKER_OPEN\<close> error, but
  not at once: the error is raised inside the \<^verbatim>\<open>try\<close> and caught by the wrapper's own
  handler, so each rejection is recorded as a failure of the breaker (moving its last
  failure forward) and retried after a backoff sleep. Whatever the wrapped call is, it is
  never awaited; three retries are counted and the wrapper sleeps 1, 2 and 4 seconds.
\<close>

theorem with_retry_open_breaker_is_retried:
  "state tripped_breaker = Open
   \<and> last_failure_time tripped_breaker = Some 0
   \<and> clock (world_at 0) - 0 < real_of_int (recovery_timeout tripped_breaker)
   \<and> fst (with_retry f (Some ''x'') (tripped_handler, world_at 0))
        = Inl (circuit_open_error ''x'')
   \<and> slept (snd (snd (with_retry f (Some ''x'') (tripped_handler, world_at 0)))) = [1, 2, 4]
   \<and> clock (snd (snd (with_retry f (Some ''x'') (tripped_handler, world_at 0)))) = 7
   \<and> retries (fst (snd (with_retry f (Some ''x'') (tripped_handler, world_at 0)))) = 3
   \<and> total_errors (fst (snd (with_retry f (Some ''x'') (tripped_handler, world_at 0)))) = 4
   \<and> circuit_breakers (fst (snd (with_retry f (Some ''x'') (tripped_handler, world_at 0)))) ''x''
        = Some \<lparr>failure_threshold = 5, recovery_timeout = 60, failure_count = 9,
                last_failure_time = Some 7, state = Open\<rparr>"
  by (simp add: retry_eval)

subsection \<open>Metrics collector\<close>

lemma percentile_index:
  assumes "vs \<noteq> []" "0 \<le> p"
  shows "percentile vs p = Inr (vs ! min (nat \<lfloor>real (length vs) * p\<rfloor>) (length vs - 1))"
proof -
  let ?n = "length vs"
  have n: "0 < ?n" using assms(1) by simp
  have nn: "0 \<le> real ?n * p" using assms(2) by simp
  then have fl: "0 \<le> \<lfloor>real ?n * p\<rfloor>" by simp
  have pi: "py_int (real ?n * p) = \<lfloor>real ?n * p\<rfloor>" using nn by (simp add: py_int_def)
  show ?thesis
  proof (cases "\<lfloor>real ?n * p\<rfloor> \<ge> int ?n")
    case True
    then have "min (nat \<lfloor>real ?n * p\<rfloor>) (?n - 1) = ?n - 1" using n by linarith
    moreover have "nat (int ?n - 1) = ?n - 1" by simp
    ultimately show ?thesis using True n assms(1)
      by (simp add: percentile_def pi Let_def py_index_def)
  next
    case False
    then have "min (nat \<lfloor>real ?n * p\<rfloor>) (?n - 1) = nat \<lfloor>real ?n * p\<rfloor>" using n fl by linarith
    then show ?thesis using False fl assms(1)
      by (simp add: percentile_def pi Let_def py_index_def)
  qed
qed

lemma summary_percentiles:
  assumes "recent_samples name tgs now c \<noteq> []"
    and "vs = sort (map metric_value (recent_samples name tgs now c))"
  shows "\<exists>s. get_metric_summary name tgs now c = Inr (Some s)
          \<and> s_count s = length vs
          \<and> s_p95 s = vs ! min (nat \<lfloor>real (length vs) * (95 / 100)\<rfloor>) (length vs - 1)
          \<and> s_p99 s = vs ! min (nat \<lfloor>real (length vs) * (99 / 100)\<rfloor>) (length vs - 1)"
proof -
  have "length vs = length (recent_samples name tgs now c)" by (simp add: assms(2))
  then have ne: "vs \<noteq> []" using assms(1) by auto
  have g: "filter (\<lambda>m. now - real_of_int (window_size c) \<le> timestamp m
                  \<and> tags_match (metric_tags m) tgs) (metrics_get c name) \<noteq> []"
    using assms(1) by (simp add: recent_samples_def)
  show ?thesis
    using g percentile_index [OF ne, of "95 / 100"] percentile_index [OF ne, of "99 / 100"]
    by (simp add: get_metric_summary_def Let_def assms(2) recent_samples_def)
qed

lemma ten_samples:
  "metrics_get (record_timers ''latency'' [1, 2, 3, 4, 5, 6, 7, 8, 9, 10] t0 default_MetricsCollector)
      ''latency''
    = map (\<lambda>d. \<lparr>metric_name = ''latency'', metric_type = TIMER, metric_value = d,
                  timestamp = t0, metric_tags = []\<rparr>) [1, 2, 3, 4, 5, 6, 7, 8, 9, 10]"
  by (simp add: record_timer_def default_MetricsCollector_def MetricsCollector_init_def
        metrics_get_def deque_append_def Let_def)

lemma ten_samples_p95:
  assumes "t1 - 300 \<le> t0"
  shows "map_sum id (map_option s_p95)
           (get_metric_summary ''latency'' None t1
              (record_timers ''latency'' [1, 2, 3, 4, 5, 6, 7, 8, 9, 10] t0 default_MetricsCollector))
         = Inr (Some 10)"
proof -
  have w: "window_size (record_timers ''latency'' [1, 2, 3, 4, 5, 6, 7, 8, 9, 10] t0
             default_MetricsCollector) = 300"
    by (simp add: record_timer_def default_MetricsCollector_def MetricsCollector_init_def Let_def)
  have p: "percentile [1, 2, 3, 4, 5, 6, 7, 8, 9, 10] (19 / 20) = Inr 10"
    by (simp add: percentile_def py_int_def py_index_def Let_def)
  have q: "percentile [1, 2, 3, 4, 5, 6, 7, 8, 9, 10] (99 / 100) = Inr 10"
    by (simp add: percentile_def py_int_def py_index_def Let_def)
  show ?thesis
    using assms
    by (simp add: get_metric_summary_def ten_samples w tags_match_def Let_def p q
          del: record_timers.simps)
qed

text \<open>
  C9. Whenever a series has samples inside the window (and matching the tag filter), the
  summary exists; with \<open>vs\<close> the sorted values of those samples, its \<open>p95\<close> and \<open>p99\<close> are
  the elements of \<open>vs\<close> at index \<open>floor (len * p)\<close>, clamped to the last index, and so is
  the estimator's answer for every percentile \<open>p \<ge> 0\<close>. Ten timer samples 1 to 10,
  summarised while they are inside the default window of 300 seconds, have \<open>p95 = 10\<close>.
\<close>

theorem percentile_nearest_rank:
  assumes "recent_samples name tgs now c \<noteq> []"
    and "vs = sort (map metric_value (recent_samples name tgs now c))"
  shows
   "(\<exists>s. get_metric_summary name tgs now c = Inr (Some s)
          \<and> s_count s = length vs
          \<and> s_p95 s = vs ! min (nat \<lfloor>real (length vs) * (95 / 100)\<rfloor>) (length vs - 1)
          \<and> s_p99 s = vs ! min (nat \<lfloor>real (length vs) * (99 / 100)\<rfloor>) (length vs - 1))
    \<and> sorted vs
    \<and> (\<forall>p\<ge>0. percentile vs p
                = Inr (vs ! min (nat \<lfloor>real (length vs) * p\<rfloor>) (length vs - 1)))
    \<and> (t1 - 300 \<le> t0 \<longrightarrow>
         map_sum id (map_option s_p95)
           (get_metric_summary ''latency'' None t1
              (record_timers ''latency'' [1, 2, 3, 4, 5, 6, 7, 8, 9, 10] t0 default_MetricsCollector))
         = Inr (Some 10))"
proof (intro conjI allI impI)
  show "\<exists>s. get_metric_summary name tgs now c = Inr (Some s)
          \<and> s_count s = length vs
          \<and> s_p95 s = vs ! min (nat \<lfloor>real (length vs) * (95 / 100)\<rfloor>) (length vs - 1)
          \<and> s_p99 s = vs ! min (nat \<lfloor>real (length vs) * (99 / 100)\<rfloor>) (length vs - 1)"
    using assms by (rule summary_percentiles)
  show "sorted vs" by (simp add: assms(2))
  have "length vs = length (recent_samples name tgs now c)" by (simp add: assms(2))
  then have ne: "vs \<noteq> []" using assms(1) by auto
  show "percentile vs p = Inr (vs ! min (nat \<lfloor>real (length vs) * p\<rfloor>) (length vs - 1))"
    if "0 \<le> p" for p using ne that by (rule percentile_index)
  show "map_sum id (map_option s_p95)
           (get_metric_summary ''latency'' None t1
              (record_timers ''latency'' [1, 2, 3, 4, 5, 6, 7, 8, 9, 10] t0 default_MetricsCollector))
         = Inr (Some 10)" if "t1 - 300 \<le> t0"
    using that by (rule ten_samples_p95)
qed

text \<open>The theorem on the ten samples recorded at instant 0 and summarised at instant 5.\<close>

theorem percentile_nearest_rank_witness:
  "recent_samples ''latency'' None 5
      (record_timers ''latency'' [1, 2, 3, 4, 5, 6, 7, 8, 9, 10] 0 default_MetricsCollector) \<noteq> []
   \<and> (\<exists>s. get_metric_summary ''latency'' None 5
            (record_timers ''latency'' [1, 2, 3, 4, 5, 6, 7, 8, 9, 10] 0 default_MetricsCollector)
          = Inr (Some s) \<and> s_p95 s = 10 \<and> s_p99 s = 10)
   \<and> percentile [1, 2, 3, 4, 5, 6, 7, 8, 9, 10] (1 / 2) = Inr 6"
proof -
  let ?c = "record_timers ''latency'' [1, 2, 3, 4, 5, 6, 7, 8, 9, 10] 0 default_MetricsCollector"
  have w: "window_size ?c = 300"
    by (simp add: record_timer_def default_MetricsCollector_def MetricsCollector_init_def Let_def)
  have r: "map metric_value (recent_samples ''latency'' None 5 ?c) = [1, 2, 3, 4, 5, 6, 7, 8, 9, 10]"
    by (simp add: recent_samples_def ten_samples w tags_match_def del: record_timers.simps)
  have ne: "recent_samples ''latency'' None 5 ?c \<noteq> []" using r by auto
  have vs: "[1, 2, 3, 4, 5, 6, 7, 8, 9, 10 :: real]
      = sort (map metric_value (recent_samples ''latency'' None 5 ?c))"
    by (simp add: r del: record_timers.simps)
  note T = percentile_nearest_rank [OF ne vs, of 5 0]
  from T have A: "\<exists>s. get_metric_summary ''latency'' None 5 ?c = Inr (Some s)
          \<and> s_p95 s = 10 \<and> s_p99 s = 10"
    by (auto simp del: record_timers.simps)
  from T have "\<forall>p\<ge>0. percentile [1, 2, 3, 4, 5, 6, 7, 8, 9, 10] p
      = Inr ([1, 2, 3, 4, 5, 6, 7, 8, 9, 10] !
              min (nat \<lfloor>real (length [1, 2, 3, 4, 5, 6, 7, 8, 9, 10 :: real]) * p\<rfloor>)
                (length [1, 2, 3, 4, 5, 6, 7, 8, 9, 10 :: real] - 1))"
    by blast
  then have "percentile [1, 2, 3, 4, 5, 6, 7, 8, 9, 10] (1 / 2)
      = Inr ([1, 2, 3, 4, 5, 6, 7, 8, 9, 10] !
              min (nat \<lfloor>real (length [1, 2, 3, 4, 5, 6, 7, 8, 9, 10 :: real]) * (1 / 2)\<rfloor>)
                (length [1, 2, 3, 4, 5, 6, 7, 8, 9, 10 :: real] - 1))"
    by simp
  then have B: "percentile [1, 2, 3, 4, 5, 6, 7, 8, 9, 10] (1 / 2) = Inr 6" by simp
  from ne A B show ?thesis by blast
qed

subsection \<open>Cache manager\<close>





lemma sorted_snoc: "sorted (xs @ [x]) \<longleftrightarrow> sorted xs \<and> (\<forall>y\<in>set xs. y \<le> (x::real))"
  by (auto simp add: sorted_append)








lemmas cache_eval = cache_ABC_def cache_ABAC_def memory_cache_def CacheManager_init_def
  default_CacheConfig_def cache_set_def cache_get_def evict_lru_def new_entry_def od_set_def
  od_get_def od_delete_def od_move_to_end_def file_backed_def is_expired_def touch_def Let_def




text \<open>A \<open>set\<close> on a key that is present replaces the entry where it stands: with room for
  three, after \<open>A\<close>, \<open>B\<close>, \<open>A\<close> again and \<open>C\<close>, the first place holds \<open>A\<close>, stamped later
  than \<open>B\<close>, and the next \<open>set\<close> evicts \<open>A\<close>.\<close>

lemma overwritten_key_evicted_first:
  "map (\<lambda>(k, e). (k, accessed_at e)) (cache cache_ABAC) = [(''A'', 3), (''B'', 2), (''C'', 4)]
   \<and> int (length (cache cache_ABAC)) = max_size (cache_config cache_ABAC)
   \<and> map fst (cache (cache_set ''D'' 40 None 5 cache_ABAC)) = [''B'', ''C'', ''D'']"
  by (simp add: cache_eval)





subsection \<open>Chat handler\<close>

lemma cache_lookup_router: "model_router (snd (cache_lookup ck clk params h)) = model_router h"
  "adapters (snd (cache_lookup ck clk params h)) = adapters h"
  by (simp_all add: cache_lookup_def case_prod_beta Let_def split: option.split)

lemma await_chat_eq:
  "a_chat ad (a_state ad) msgs ap = (outcome, s) \<Longrightarrow>
   await_chat name ad msgs ap h
     = (outcome, h\<lparr>adapters := adapters_put name (ad\<lparr>a_state := s\<rparr>) (adapters h)\<rparr>)"
  by (simp add: await_chat_def)

lemma handle_chat_adapter_raises:
  assumes "p_messages params \<noteq> []" and "\<not> p_stream params"
    and "cache_lookup ck clk params h = (cached, h1)"
    and "\<not> (case cached of Some v \<Rightarrow> py_truthy v | None \<Rightarrow> False)"
    and "model_router h = Some r"
    and "r_select_model r (r_state r) (p_messages params) (p_model params) metadata
           = Inr (model, adapter_name)"
    and "adapters_get (adapters h) adapter_name = Some adapter"
    and "a_chat adapter (a_state adapter) (p_messages params)
           \<lparr>ap_model = model, ap_other = p_other params\<rparr> = (Inl adapter_error, s)"
  shows "handle_chat ck clk params metadata h
           = chat_fallback clk params \<lparr>ap_model = model, ap_other = p_other params\<rparr> model
               adapter_error
               (h1\<lparr>adapters := adapters_put adapter_name (adapter\<lparr>a_state := s\<rparr>) (adapters h)\<rparr>)"
proof -
  have r: "model_router h1 = Some r" and a: "adapters h1 = adapters h"
    using cache_lookup_router [of ck clk params h] assms(3,5) by simp_all
  show ?thesis
    using assms(1-7) r a by (simp add: handle_chat_def Let_def await_chat_eq [OF assms(8)])
qed

text \<open>
  C8. A non-streaming request with messages, not answered from the cache, on a handler
  with a router, whose selected adapter raises (leaving the adapters as \<open>ads\<close>): the
  handler records the failure with the router and then asks it for a fallback, once (the
  router is left in the state after those two calls). If the fallback names a configured
  adapter, that adapter's \<open>chat\<close> is awaited with the fallback model exactly once: the
  adapters the call leaves behind are \<open>ads\<close> with the fallback adapter moved by that one
  step. Its result is returned as the fallback success, naming the fallback adapter and
  the original model. If that await raises too, or the router offers no fallback, or the
  fallback names no configured adapter (then no adapter moves), the response is the error
  with the message of the original adapter error.
\<close>

theorem handle_chat_fallback:
  assumes "p_messages params \<noteq> []" and "\<not> p_stream params"
    and "cache_lookup ck clk params h = (cached, h1)"
    and "\<not> (case cached of Some v \<Rightarrow> py_truthy v | None \<Rightarrow> False)"
    and "model_router h = Some r"
    and "r_select_model r (r_state r) (p_messages params) (p_model params) metadata
           = Inr (model, adapter_name)"
    and "adapters_get (adapters h) adapter_name = Some adapter"
    and "a_chat adapter (a_state adapter) (p_messages params)
           \<lparr>ap_model = model, ap_other = p_other params\<rparr> = (Inl adapter_error, s)"
    and "ads = adapters_put adapter_name (adapter\<lparr>a_state := s\<rparr>) (adapters h)"
    and "r_get_fallback_model r (r_record_failure r (r_state r) model (clk T_failure)) model
           (clk T_fallback) = (fallback_info, st)"
    and "res = handle_chat ck clk params metadata h"
  shows
   "model_router (snd res) = Some (r\<lparr>r_state := st\<rparr>)
    \<and> (\<forall>fm fan fa result fs.
          fallback_info = Some (fm, fan) \<and> adapters_get ads fan = Some fa
          \<and> a_chat fa (a_state fa) (p_messages params)
                \<lparr>ap_model = fm, ap_other = p_other params\<rparr> = (Inr result, fs)
          \<longrightarrow> fst res = RespFallback result fan model
              \<and> adapters (snd res) = adapters_put fan (fa\<lparr>a_state := fs\<rparr>) ads)
    \<and> (\<forall>fm fan fa fallback_error fs.
          fallback_info = Some (fm, fan) \<and> adapters_get ads fan = Some fa
          \<and> a_chat fa (a_state fa) (p_messages params)
                \<lparr>ap_model = fm, ap_other = p_other params\<rparr> = (Inl fallback_error, fs)
          \<longrightarrow> fst res = RespError (exn_message adapter_error)
              \<and> adapters (snd res) = adapters_put fan (fa\<lparr>a_state := fs\<rparr>) ads)
    \<and> (fallback_info = None
          \<or> (\<exists>fm fan. fallback_info = Some (fm, fan) \<and> adapters_get ads fan = None)
          \<longrightarrow> fst res = RespError (exn_message adapter_error) \<and> adapters (snd res) = ads)"
proof -
  have r: "model_router h1 = Some r"
    using cache_lookup_router [of ck clk params h] assms(3,5) by simp
  let ?h = "h1\<lparr>adapters := ads\<rparr>"
  have res: "res = chat_fallback clk params \<lparr>ap_model = model, ap_other = p_other params\<rparr>
               model adapter_error ?h"
    unfolding assms(11) assms(9) using assms(1-8) by (rule handle_chat_adapter_raises)
  have rh: "model_router ?h = Some r" "adapters ?h = ads" using r by simp_all
  show ?thesis
  proof (intro conjI allI impI)
    show "model_router (snd res) = Some (r\<lparr>r_state := st\<rparr>)"
      unfolding res using rh assms(10)
      by (simp add: chat_fallback_def Let_def await_chat_def case_prod_beta
            split: option.split sum.split)
  next
    fix fm fan fa result fs
    assume a: "fallback_info = Some (fm, fan) \<and> adapters_get ads fan = Some fa
          \<and> a_chat fa (a_state fa) (p_messages params)
                \<lparr>ap_model = fm, ap_other = p_other params\<rparr> = (Inr result, fs)"
    then have c: "a_chat fa (a_state fa) (p_messages params)
                \<lparr>ap_model = fm, ap_other = p_other params\<rparr> = (Inr result, fs)" by simp
    show "fst res = RespFallback result fan model"
      "adapters (snd res) = adapters_put fan (fa\<lparr>a_state := fs\<rparr>) ads"
      unfolding res using rh assms(10) a
      by (simp_all add: chat_fallback_def Let_def await_chat_eq [OF c])
  next
    fix fm fan fa fallback_error fs
    assume a: "fallback_info = Some (fm, fan) \<and> adapters_get ads fan = Some fa
          \<and> a_chat fa (a_state fa) (p_messages params)
                \<lparr>ap_model = fm, ap_other = p_other params\<rparr> = (Inl fallback_error, fs)"
    then have c: "a_chat fa (a_state fa) (p_messages params)
                \<lparr>ap_model = fm, ap_other = p_other params\<rparr> = (Inl fallback_error, fs)" by simp
    show "fst res = RespError (exn_message adapter_error)"
      "adapters (snd res) = adapters_put fan (fa\<lparr>a_state := fs\<rparr>) ads"
      unfolding res using rh assms(10) a
      by (simp_all add: chat_fallback_def Let_def await_chat_eq [OF c])
  next
    assume a: "fallback_info = None
          \<or> (\<exists>fm fan. fallback_info = Some (fm, fan) \<and> adapters_get ads fan = None)"
    show "fst res = RespError (exn_message adapter_error)" "adapters (snd res) = ads"
      unfolding res using rh assms(10) a
      by (auto simp add: chat_fallback_def Let_def)
  qed
qed

text \<open>The theorem with an adapter that raises for \<open>M1\<close> and a router that falls back to
  \<open>M2\<close>, on an adapter that answers and on one that raises as well; the adapters count
  their awaits, and each has been awaited once.\<close>

theorem handle_chat_fallback_witness:
  "fst (handle_chat no_cache_key chat_clock hi_params [] (two_adapters echo_adapter))
      = RespFallback (JDict [(''model'', JStr ''M2'')]) (Some ''a2'') ''M1''
   \<and> map (\<lambda>(k, a). (k, a_state a))
        (adapters (snd (handle_chat no_cache_key chat_clock hi_params []
           (two_adapters echo_adapter)))) = [(''a1'', 1), (''a2'', 1)]
   \<and> fst (handle_chat no_cache_key chat_clock hi_params [] (two_adapters failing_adapter))
      = RespError ''down: M1''
   \<and> map (\<lambda>(k, a). (k, a_state a))
        (adapters (snd (handle_chat no_cache_key chat_clock hi_params []
           (two_adapters failing_adapter)))) = [(''a1'', 1), (''a2'', 1)]
   \<and> model_router (snd (handle_chat no_cache_key chat_clock hi_params []
        (two_adapters failing_adapter))) = Some (fixed_router\<lparr>r_state := 1\<rparr>)"
proof -
  let ?ads = "\<lambda>a. [(''a1'', failing_adapter\<lparr>a_state := 1\<rparr>), (''a2'', a)]"
  let ?e = "Exn AdapterError ''down: M1'' (Some ''ADAPTER_ERROR'')"
  have T: "model_router (snd (handle_chat no_cache_key chat_clock hi_params [] (two_adapters a)))
        = Some (fixed_router\<lparr>r_state := 1\<rparr>)
    \<and> (\<forall>fm fan fa result fs.
          Some (''M2'', Some ''a2'') = Some (fm, fan) \<and> adapters_get (?ads a) fan = Some fa
          \<and> a_chat fa (a_state fa) (p_messages hi_params)
                \<lparr>ap_model = fm, ap_other = p_other hi_params\<rparr> = (Inr result, fs)
          \<longrightarrow> fst (handle_chat no_cache_key chat_clock hi_params [] (two_adapters a))
                = RespFallback result fan ''M1''
              \<and> adapters (snd (handle_chat no_cache_key chat_clock hi_params [] (two_adapters a)))
                = adapters_put fan (fa\<lparr>a_state := fs\<rparr>) (?ads a))
    \<and> (\<forall>fm fan fa fallback_error fs.
          Some (''M2'', Some ''a2'') = Some (fm, fan) \<and> adapters_get (?ads a) fan = Some fa
          \<and> a_chat fa (a_state fa) (p_messages hi_params)
                \<lparr>ap_model = fm, ap_other = p_other hi_params\<rparr> = (Inl fallback_error, fs)
          \<longrightarrow> fst (handle_chat no_cache_key chat_clock hi_params [] (two_adapters a))
                = RespError (exn_message ?e)
              \<and> adapters (snd (handle_chat no_cache_key chat_clock hi_params [] (two_adapters a)))
                = adapters_put fan (fa\<lparr>a_state := fs\<rparr>) (?ads a))
    \<and> (Some (''M2'', Some ''a2'') = None
          \<or> (\<exists>fm fan. Some (''M2'', Some ''a2'') = Some (fm, fan)
                \<and> adapters_get (?ads a) fan = None)
          \<longrightarrow> fst (handle_chat no_cache_key chat_clock hi_params [] (two_adapters a))
                = RespError (exn_message ?e)
              \<and> adapters (snd (handle_chat no_cache_key chat_clock hi_params [] (two_adapters a)))
                = ?ads a)"
    for a
  proof -
    have pre: "p_messages hi_params \<noteq> []" "\<not> p_stream hi_params"
      "cache_lookup no_cache_key chat_clock hi_params (two_adapters a) = (None, two_adapters a)"
      "\<not> (case None :: json option of Some v \<Rightarrow> py_truthy v | None \<Rightarrow> False)"
      "model_router (two_adapters a) = Some fixed_router"
      "r_select_model fixed_router (r_state fixed_router) (p_messages hi_params)
          (p_model hi_params) [] = Inr (''M1'', Some ''a1'')"
      "adapters_get (adapters (two_adapters a)) (Some ''a1'') = Some failing_adapter"
      "a_chat failing_adapter (a_state failing_adapter) (p_messages hi_params)
          \<lparr>ap_model = ''M1'', ap_other = p_other hi_params\<rparr> = (Inl ?e, 1)"
      "?ads a = adapters_put (Some ''a1'') (failing_adapter\<lparr>a_state := 1\<rparr>)
          (adapters (two_adapters a))"
      "r_get_fallback_model fixed_router
          (r_record_failure fixed_router (r_state fixed_router) ''M1'' (chat_clock T_failure))
          ''M1'' (chat_clock T_fallback) = (Some (''M2'', Some ''a2''), 1)"
      by (simp_all add: hi_params_def cache_lookup_def two_adapters_def fixed_router_def
            adapters_get_def adapters_put_def failing_adapter_def failing_chat_def)
    show ?thesis by (rule handle_chat_fallback [OF pre refl])
  qed
  have e: "adapters_get (?ads a) (Some ''a2'') = Some a" for a :: "nat adapter"
    by (simp add: adapters_get_def)
  have x: "a_chat echo_adapter (a_state echo_adapter) (p_messages hi_params)
      \<lparr>ap_model = ''M2'', ap_other = p_other hi_params\<rparr>
      = (Inr (JDict [(''model'', JStr ''M2'')]), 1)"
    by (simp add: echo_adapter_def echo_chat_def)
  have y: "a_chat failing_adapter (a_state failing_adapter) (p_messages hi_params)
      \<lparr>ap_model = ''M2'', ap_other = p_other hi_params\<rparr>
      = (Inl (Exn AdapterError ''down: M2'' (Some ''ADAPTER_ERROR'')), 1)"
    by (simp add: failing_adapter_def failing_chat_def)
  note A = T [of echo_adapter, THEN conjunct2, THEN conjunct1, rule_format,
      of "''M2''" "Some ''a2''" echo_adapter "JDict [(''model'', JStr ''M2'')]" 1]
  note B = T [of failing_adapter, THEN conjunct2, THEN conjunct2, THEN conjunct1, rule_format,
      of "''M2''" "Some ''a2''" failing_adapter
         "Exn AdapterError ''down: M2'' (Some ''ADAPTER_ERROR'')" 1]
  have 1: "fst (handle_chat no_cache_key chat_clock hi_params [] (two_adapters echo_adapter))
      = RespFallback (JDict [(''model'', JStr ''M2'')]) (Some ''a2'') ''M1''"
    and 2: "map (\<lambda>(k, a). (k, a_state a))
        (adapters (snd (handle_chat no_cache_key chat_clock hi_params []
           (two_adapters echo_adapter)))) = [(''a1'', 1), (''a2'', 1)]"
    using A e [of echo_adapter] x by (simp_all add: adapters_put_def)
  have 3: "fst (handle_chat no_cache_key chat_clock hi_params [] (two_adapters failing_adapter))
      = RespError ''down: M1''"
    and 4: "map (\<lambda>(k, a). (k, a_state a))
        (adapters (snd (handle_chat no_cache_key chat_clock hi_params []
           (two_adapters failing_adapter)))) = [(''a1'', 1), (''a2'', 1)]"
    using B e [of failing_adapter] y by (simp_all add: adapters_put_def)
  have 5: "model_router (snd (handle_chat no_cache_key chat_clock hi_params []
        (two_adapters failing_adapter))) = Some (fixed_router\<lparr>r_state := 1\<rparr>)"
    by (rule T [of failing_adapter, THEN conjunct1])
  from 1 2 3 4 5 show ?thesis by (intro conjI)
qed


subsection \<open>IPC message codec\<close>






















end
